theory Spec2Isabelle
  imports Complex_Main "HOL-Library.Word" "HOL-Library.Signed_Division"
begin

section \<open>The metric catalog of metrics/core/metrics.go\<close>

text \<open>
  The catalog is a Go package: a table of metric descriptors, each with optional
  function-valued fields that decide whether the metric applies to a container and
  extract its value from a cadvisor stats sample. Integers of the samples are uint64,
  the extracted values int64; both are 64-bit words here, so that the conversion
  \<^verbatim>\<open>int64(x)\<close> keeps the bits and \<^verbatim>\<open>+=\<close> wraps around.
\<close>

subsection \<open>The cadvisor input types\<close>

type_synonym uint64 = "64 word"
type_synonym int64 = "64 word"

text \<open>
  A \<^verbatim>\<open>time.Time\<close> is an instant, counted here in nanoseconds since the zero Time
  (January 1, year 1, 00:00:00 UTC), so that \<^verbatim>\<open>IsZero\<close> is the comparison with 0.
\<close>

type_synonym Time = int

record ContainerSpec =
  CreationTime :: Time
  HasCpu :: bool
  HasMemory :: bool
  HasNetwork :: bool
  HasFilesystem :: bool
  HasDiskIo :: bool

record CpuUsage =
  Total :: uint64

record CpuStats =
  cpu_Usage :: CpuUsage

record MemoryStatsMemoryData =
  Pgfault :: uint64
  Pgmajfault :: uint64

record MemoryStats =
  mem_Usage :: uint64
  Cache :: uint64
  RSS :: uint64
  WorkingSet :: uint64
  ContainerData :: MemoryStatsMemoryData

record InterfaceStats =
  RxBytes :: uint64
  RxErrors :: uint64
  TxBytes :: uint64
  TxErrors :: uint64

record NetworkStats =
  Interfaces :: "InterfaceStats list"

record FsStats =
  fs_Device :: string
  Limit :: uint64
  fs_Usage :: uint64
  HasInodes :: bool
  Inodes :: uint64
  InodesFree :: uint64

record PerDiskStats =
  pd_Device :: string
  Major :: uint64
  Minor :: uint64
  Stats :: "string \<rightharpoonup> uint64"

record DiskIoStats =
  IoServiceBytes :: "PerDiskStats list"

record AcceleratorStats =
  Make :: string
  Model :: string
  ID :: string
  MemoryTotal :: uint64
  MemoryUsed :: uint64
  DutyCycle :: uint64

record ContainerStats =
  Cpu :: CpuStats
  Memory :: MemoryStats
  Network :: NetworkStats
  Filesystem :: "FsStats list"
  DiskIo :: DiskIoStats
  Accelerators :: "AcceleratorStats list"

text \<open>
  The extractors take pointers to these structs and dereference them without a check; the
  pointers are taken to be non-nil, so a struct stands for the pointer to it.
\<close>

text \<open>
  Modelled from the spec: the helper \<^verbatim>\<open>metrics.IsNode\<close> of package
  metrics/util/metrics is not in the file at hand. The spec gives every snapshot an
  entity-kind flag (individual vs. aggregate); the entity carries that flag and
  \<open>IsNode\<close> reads it.
\<close>

datatype EntityKind = Individual | Aggregate

record ContainerInfo =
  Spec :: ContainerSpec
  Kind :: EntityKind

definition IsNode :: "ContainerInfo \<Rightarrow> bool" where
  "IsNode c = (Kind c = Aggregate)"

subsection \<open>Descriptors, values and metrics\<close>

text \<open>
  Modelled from the spec: the enumerations \<^verbatim>\<open>MetricType\<close>, \<^verbatim>\<open>ValueType\<close> and
  \<^verbatim>\<open>UnitsType\<close>, the structs \<^verbatim>\<open>MetricValue\<close>, \<^verbatim>\<open>LabeledMetric\<close> and
  \<^verbatim>\<open>LabelDescriptor\<close> and the label table are declared in other files of the
  package. The spec lists kind {Cumulative, Gauge}, valueType {Int64, Float}, units
  {Bytes, Milliseconds, Nanoseconds, Count}, MetricValue as {valueType, kind, intValue,
  floatValue} and LabeledMetric as {metricName, labels, value}. Of a label descriptor only
  the key is used. No extractor of this file writes the float value: it keeps Go's zero.
\<close>

datatype MetricType = MetricCumulative | MetricGauge

datatype ValueType = ValueInt64 | ValueFloat

datatype UnitsType = UnitsBytes | UnitsMilliseconds | UnitsNanoseconds | UnitsCount

record LabelDescriptor =
  Key :: string

record MetricValue =
  IntValue :: int64
  FloatValue :: real
  MetricType :: MetricType
  mv_ValueType :: ValueType

text \<open>\<^verbatim>\<open>LabeledMetric\<close> embeds \<^verbatim>\<open>MetricValue\<close>, whose fields are promoted.\<close>

record LabeledMetric = MetricValue +
  lm_Name :: string
  lm_Labels :: "string \<rightharpoonup> string"

record MetricDescriptor =
  Name :: string
  Description :: string
  Labels :: "LabelDescriptor list"
  Type :: MetricType
  ValueType :: ValueType
  Units :: UnitsType

text \<open>
  \<^verbatim>\<open>Metric\<close> embeds the descriptor and has four function-valued fields; a field the
  literal leaves out is nil, here \<open>None\<close>. \<^verbatim>\<open>GetValue\<close> of the uptime metric calls
  \<^verbatim>\<open>time.Since\<close>, which reads the clock: the clock reading of the call is the first
  argument of every \<open>GetValue\<close>, and the extractors that do not read it ignore it.
\<close>

record Metric = MetricDescriptor +
  HasValue :: "(ContainerSpec \<Rightarrow> bool) option"
  GetValue :: "(Time \<Rightarrow> ContainerInfo \<Rightarrow> ContainerStats \<Rightarrow> MetricValue) option"
  HasLabeledMetric :: "(ContainerSpec \<Rightarrow> ContainerStats \<Rightarrow> bool) option"
  GetLabeledMetric :: "(ContainerInfo \<Rightarrow> ContainerStats \<Rightarrow> LabeledMetric list) option"

text \<open>
  Modelled from the spec: the label descriptors and the label lists of the descriptors
  are declared in another file of the package. The spec names the key \<^verbatim>\<open>resource_id\<close>
  of filesystem and disk metrics and the three labels make, model and device id of
  accelerator metrics.
\<close>

definition LabelResourceID :: LabelDescriptor where
  "LabelResourceID = \<lparr>Key = ''resource_id''\<rparr>"

definition LabelAcceleratorMake :: LabelDescriptor where
  "LabelAcceleratorMake = \<lparr>Key = ''make''\<rparr>"

definition LabelAcceleratorModel :: LabelDescriptor where
  "LabelAcceleratorModel = \<lparr>Key = ''model''\<rparr>"

definition LabelAcceleratorID :: LabelDescriptor where
  "LabelAcceleratorID = \<lparr>Key = ''device id''\<rparr>"

definition metricLabels :: "LabelDescriptor list" where
  "metricLabels = [LabelResourceID]"

definition acceleratorLabels :: "LabelDescriptor list" where
  "acceleratorLabels = [LabelAcceleratorMake, LabelAcceleratorModel, LabelAcceleratorID]"

subsection \<open>Library functions the extractors call\<close>

text \<open>
  \<^verbatim>\<open>time.Since(t)\<close> is \<^verbatim>\<open>time.Now().Sub(t)\<close>: the difference as a Duration, an int64
  count of nanoseconds, which \<^verbatim>\<open>Sub\<close> replaces by the largest or smallest Duration when
  it does not fit.
\<close>

definition maxDuration :: int where
  "maxDuration = 2 ^ 63 - 1"

definition minDuration :: int where
  "minDuration = - (2 ^ 63)"

definition time_Sub :: "Time \<Rightarrow> Time \<Rightarrow> int" where
  "time_Sub t u =
     (let d = t - u
      in if d < minDuration then minDuration
         else if maxDuration < d then maxDuration
         else d)"

definition time_Since :: "Time \<Rightarrow> Time \<Rightarrow> int" where
  "time_Since now t = time_Sub now t"

definition time_Millisecond :: int where
  "time_Millisecond = 1000000"

text \<open>The verb \<^verbatim>\<open>%d\<close> of \<^verbatim>\<open>fmt.Sprintf\<close> on an unsigned integer: its decimal digits.\<close>

definition digit :: "nat \<Rightarrow> char" where
  "digit d = ''0123456789'' ! d"

fun decimal :: "nat \<Rightarrow> string" where
  "decimal n =
     (if n < 10 then [digit n]
      else decimal (n div 10) @ [digit (n mod 10)])"

declare decimal.simps [simp del]

definition Sprintf_d_colon_d :: "uint64 \<Rightarrow> uint64 \<Rightarrow> string" where
  "Sprintf_d_colon_d a b = decimal (unat a) @ '':'' @ decimal (unat b)"

subsection \<open>Standard metrics\<close>

definition CustomMetricPrefix :: string where
  "CustomMetricPrefix = ''custom/''"

definition MetricUptime_HasValue :: "ContainerSpec \<Rightarrow> bool" where
  "MetricUptime_HasValue spec = (\<not> (CreationTime spec = 0))"

definition MetricUptime_GetValue :: "Time \<Rightarrow> ContainerInfo \<Rightarrow> ContainerStats \<Rightarrow> MetricValue" where
  "MetricUptime_GetValue now c stat =
     \<lparr>IntValue = word_of_int (time_Since now (CreationTime (Spec c)) sdiv time_Millisecond),
      FloatValue = 0,
      MetricType = MetricCumulative,
      mv_ValueType = ValueInt64\<rparr>"

definition MetricUptime :: Metric where
  "MetricUptime =
     \<lparr>Name = ''uptime'',
      Description = ''Number of milliseconds since the container was started'',
      Labels = [],
      Type = MetricCumulative,
      ValueType = ValueInt64,
      Units = UnitsMilliseconds,
      HasValue = Some MetricUptime_HasValue,
      GetValue = Some MetricUptime_GetValue,
      HasLabeledMetric = None,
      GetLabeledMetric = None\<rparr>"

definition MetricCpuUsage_HasValue :: "ContainerSpec \<Rightarrow> bool" where
  "MetricCpuUsage_HasValue spec = HasCpu spec"

definition MetricCpuUsage_GetValue :: "ContainerInfo \<Rightarrow> ContainerStats \<Rightarrow> MetricValue" where
  "MetricCpuUsage_GetValue c stat =
     (let metricValue = \<lparr>IntValue = 0, FloatValue = 0,
                          MetricType = MetricCumulative, mv_ValueType = ValueInt64\<rparr>
      in if \<not> IsNode c then metricValue\<lparr>IntValue := Total (cpu_Usage (Cpu stat))\<rparr>
         else metricValue)"

definition MetricCpuUsage :: Metric where
  "MetricCpuUsage =
     \<lparr>Name = ''cpu/usage'',
      Description = ''Cumulative CPU usage on all cores'',
      Labels = [],
      Type = MetricCumulative,
      ValueType = ValueInt64,
      Units = UnitsNanoseconds,
      HasValue = Some MetricCpuUsage_HasValue,
      GetValue = Some (\<lambda>now. MetricCpuUsage_GetValue),
      HasLabeledMetric = None,
      GetLabeledMetric = None\<rparr>"

definition MetricMemoryUsage_HasValue :: "ContainerSpec \<Rightarrow> bool" where
  "MetricMemoryUsage_HasValue spec = HasMemory spec"

definition MetricMemoryUsage_GetValue :: "ContainerInfo \<Rightarrow> ContainerStats \<Rightarrow> MetricValue" where
  "MetricMemoryUsage_GetValue c stat =
     (let metricValue = \<lparr>IntValue = 0, FloatValue = 0,
                          MetricType = MetricGauge, mv_ValueType = ValueInt64\<rparr>
      in if \<not> IsNode c then metricValue\<lparr>IntValue := mem_Usage (Memory stat)\<rparr>
         else metricValue)"

definition MetricMemoryUsage :: Metric where
  "MetricMemoryUsage =
     \<lparr>Name = ''memory/usage'',
      Description = ''Memory usage'',
      Labels = [],
      Type = MetricGauge,
      ValueType = ValueInt64,
      Units = UnitsBytes,
      HasValue = Some MetricMemoryUsage_HasValue,
      GetValue = Some (\<lambda>now. MetricMemoryUsage_GetValue),
      HasLabeledMetric = None,
      GetLabeledMetric = None\<rparr>"

definition MetricMemoryCache_HasValue :: "ContainerSpec \<Rightarrow> bool" where
  "MetricMemoryCache_HasValue spec = HasMemory spec"

definition MetricMemoryCache_GetValue :: "ContainerInfo \<Rightarrow> ContainerStats \<Rightarrow> MetricValue" where
  "MetricMemoryCache_GetValue c stat =
     (let metricValue = \<lparr>IntValue = 0, FloatValue = 0,
                          MetricType = MetricGauge, mv_ValueType = ValueInt64\<rparr>
      in if \<not> IsNode c then metricValue\<lparr>IntValue := Cache (Memory stat)\<rparr>
         else metricValue)"

definition MetricMemoryCache :: Metric where
  "MetricMemoryCache =
     \<lparr>Name = ''memory/cache'',
      Description = ''Cache memory'',
      Labels = [],
      Type = MetricGauge,
      ValueType = ValueInt64,
      Units = UnitsBytes,
      HasValue = Some MetricMemoryCache_HasValue,
      GetValue = Some (\<lambda>now. MetricMemoryCache_GetValue),
      HasLabeledMetric = None,
      GetLabeledMetric = None\<rparr>"

definition MetricMemoryRSS_HasValue :: "ContainerSpec \<Rightarrow> bool" where
  "MetricMemoryRSS_HasValue spec = HasMemory spec"

definition MetricMemoryRSS_GetValue :: "ContainerInfo \<Rightarrow> ContainerStats \<Rightarrow> MetricValue" where
  "MetricMemoryRSS_GetValue c stat =
     (let metricValue = \<lparr>IntValue = 0, FloatValue = 0,
                          MetricType = MetricGauge, mv_ValueType = ValueInt64\<rparr>
      in if \<not> IsNode c then metricValue\<lparr>IntValue := RSS (Memory stat)\<rparr>
         else metricValue)"

definition MetricMemoryRSS :: Metric where
  "MetricMemoryRSS =
     \<lparr>Name = ''memory/rss'',
      Description = ''RSS memory'',
      Labels = [],
      Type = MetricGauge,
      ValueType = ValueInt64,
      Units = UnitsBytes,
      HasValue = Some MetricMemoryRSS_HasValue,
      GetValue = Some (\<lambda>now. MetricMemoryRSS_GetValue),
      HasLabeledMetric = None,
      GetLabeledMetric = None\<rparr>"

definition MetricMemoryWorkingSet_HasValue :: "ContainerSpec \<Rightarrow> bool" where
  "MetricMemoryWorkingSet_HasValue spec = HasMemory spec"

definition MetricMemoryWorkingSet_GetValue :: "ContainerInfo \<Rightarrow> ContainerStats \<Rightarrow> MetricValue" where
  "MetricMemoryWorkingSet_GetValue c stat =
     (let metricValue = \<lparr>IntValue = 0, FloatValue = 0,
                          MetricType = MetricGauge, mv_ValueType = ValueInt64\<rparr>
      in if \<not> IsNode c then metricValue\<lparr>IntValue := WorkingSet (Memory stat)\<rparr>
         else metricValue)"

definition MetricMemoryWorkingSet :: Metric where
  "MetricMemoryWorkingSet =
     \<lparr>Name = ''memory/working_set'',
      Description = ''Working set memory. Working set is the memory being used and not easily dropped by the kernel'',
      Labels = [],
      Type = MetricGauge,
      ValueType = ValueInt64,
      Units = UnitsBytes,
      HasValue = Some MetricMemoryWorkingSet_HasValue,
      GetValue = Some (\<lambda>now. MetricMemoryWorkingSet_GetValue),
      HasLabeledMetric = None,
      GetLabeledMetric = None\<rparr>"

definition MetricMemoryPageFaults_HasValue :: "ContainerSpec \<Rightarrow> bool" where
  "MetricMemoryPageFaults_HasValue spec = HasMemory spec"

definition MetricMemoryPageFaults_GetValue :: "ContainerInfo \<Rightarrow> ContainerStats \<Rightarrow> MetricValue" where
  "MetricMemoryPageFaults_GetValue c stat =
     (let metricValue = \<lparr>IntValue = 0, FloatValue = 0,
                          MetricType = MetricCumulative, mv_ValueType = ValueInt64\<rparr>
      in if \<not> IsNode c then metricValue\<lparr>IntValue := Pgfault (ContainerData (Memory stat))\<rparr>
         else metricValue)"

definition MetricMemoryPageFaults :: Metric where
  "MetricMemoryPageFaults =
     \<lparr>Name = ''memory/page_faults'',
      Description = ''Number of page faults'',
      Labels = [],
      Type = MetricCumulative,
      ValueType = ValueInt64,
      Units = UnitsCount,
      HasValue = Some MetricMemoryPageFaults_HasValue,
      GetValue = Some (\<lambda>now. MetricMemoryPageFaults_GetValue),
      HasLabeledMetric = None,
      GetLabeledMetric = None\<rparr>"

definition MetricMemoryMajorPageFaults_HasValue :: "ContainerSpec \<Rightarrow> bool" where
  "MetricMemoryMajorPageFaults_HasValue spec = HasMemory spec"

definition MetricMemoryMajorPageFaults_GetValue :: "ContainerInfo \<Rightarrow> ContainerStats \<Rightarrow> MetricValue" where
  "MetricMemoryMajorPageFaults_GetValue c stat =
     (let metricValue = \<lparr>IntValue = 0, FloatValue = 0,
                          MetricType = MetricCumulative, mv_ValueType = ValueInt64\<rparr>
      in if \<not> IsNode c then metricValue\<lparr>IntValue := Pgmajfault (ContainerData (Memory stat))\<rparr>
         else metricValue)"

definition MetricMemoryMajorPageFaults :: Metric where
  "MetricMemoryMajorPageFaults =
     \<lparr>Name = ''memory/major_page_faults'',
      Description = ''Number of major page faults'',
      Labels = [],
      Type = MetricCumulative,
      ValueType = ValueInt64,
      Units = UnitsCount,
      HasValue = Some MetricMemoryMajorPageFaults_HasValue,
      GetValue = Some (\<lambda>now. MetricMemoryMajorPageFaults_GetValue),
      HasLabeledMetric = None,
      GetLabeledMetric = None\<rparr>"

definition MetricNetworkRx_HasValue :: "ContainerSpec \<Rightarrow> bool" where
  "MetricNetworkRx_HasValue spec = HasNetwork spec"

definition MetricNetworkRx_GetValue :: "ContainerInfo \<Rightarrow> ContainerStats \<Rightarrow> MetricValue" where
  "MetricNetworkRx_GetValue c stat =
     (let rxBytes = fold (\<lambda>interfaceStat rxBytes. rxBytes + RxBytes interfaceStat)
                    (Interfaces (Network stat)) 0;
          metricValue = \<lparr>IntValue = 0, FloatValue = 0,
                          MetricType = MetricCumulative, mv_ValueType = ValueInt64\<rparr>
      in if \<not> IsNode c then metricValue\<lparr>IntValue := rxBytes\<rparr>
         else metricValue)"

definition MetricNetworkRx :: Metric where
  "MetricNetworkRx =
     \<lparr>Name = ''network/rx'',
      Description = ''Cumulative number of bytes received over the network'',
      Labels = [],
      Type = MetricCumulative,
      ValueType = ValueInt64,
      Units = UnitsBytes,
      HasValue = Some MetricNetworkRx_HasValue,
      GetValue = Some (\<lambda>now. MetricNetworkRx_GetValue),
      HasLabeledMetric = None,
      GetLabeledMetric = None\<rparr>"

definition MetricNetworkRxErrors_HasValue :: "ContainerSpec \<Rightarrow> bool" where
  "MetricNetworkRxErrors_HasValue spec = HasNetwork spec"

definition MetricNetworkRxErrors_GetValue :: "ContainerInfo \<Rightarrow> ContainerStats \<Rightarrow> MetricValue" where
  "MetricNetworkRxErrors_GetValue c stat =
     (let rxErrors = fold (\<lambda>interfaceStat rxErrors. rxErrors + RxErrors interfaceStat)
                    (Interfaces (Network stat)) 0;
          metricValue = \<lparr>IntValue = 0, FloatValue = 0,
                          MetricType = MetricCumulative, mv_ValueType = ValueInt64\<rparr>
      in if \<not> IsNode c then metricValue\<lparr>IntValue := rxErrors\<rparr>
         else metricValue)"

definition MetricNetworkRxErrors :: Metric where
  "MetricNetworkRxErrors =
     \<lparr>Name = ''network/rx_errors'',
      Description = ''Cumulative number of errors while receiving over the network'',
      Labels = [],
      Type = MetricCumulative,
      ValueType = ValueInt64,
      Units = UnitsCount,
      HasValue = Some MetricNetworkRxErrors_HasValue,
      GetValue = Some (\<lambda>now. MetricNetworkRxErrors_GetValue),
      HasLabeledMetric = None,
      GetLabeledMetric = None\<rparr>"

definition MetricNetworkTx_HasValue :: "ContainerSpec \<Rightarrow> bool" where
  "MetricNetworkTx_HasValue spec = HasNetwork spec"

definition MetricNetworkTx_GetValue :: "ContainerInfo \<Rightarrow> ContainerStats \<Rightarrow> MetricValue" where
  "MetricNetworkTx_GetValue c stat =
     (let txBytes = fold (\<lambda>interfaceStat txBytes. txBytes + TxBytes interfaceStat)
                    (Interfaces (Network stat)) 0;
          metricValue = \<lparr>IntValue = 0, FloatValue = 0,
                          MetricType = MetricCumulative, mv_ValueType = ValueInt64\<rparr>
      in if \<not> IsNode c then metricValue\<lparr>IntValue := txBytes\<rparr>
         else metricValue)"

definition MetricNetworkTx :: Metric where
  "MetricNetworkTx =
     \<lparr>Name = ''network/tx'',
      Description = ''Cumulative number of bytes sent over the network'',
      Labels = [],
      Type = MetricCumulative,
      ValueType = ValueInt64,
      Units = UnitsBytes,
      HasValue = Some MetricNetworkTx_HasValue,
      GetValue = Some (\<lambda>now. MetricNetworkTx_GetValue),
      HasLabeledMetric = None,
      GetLabeledMetric = None\<rparr>"

definition MetricNetworkTxErrors_HasValue :: "ContainerSpec \<Rightarrow> bool" where
  "MetricNetworkTxErrors_HasValue spec = HasNetwork spec"

definition MetricNetworkTxErrors_GetValue :: "ContainerInfo \<Rightarrow> ContainerStats \<Rightarrow> MetricValue" where
  "MetricNetworkTxErrors_GetValue c stat =
     (let txErrors = fold (\<lambda>interfaceStat txErrors. txErrors + TxErrors interfaceStat)
                    (Interfaces (Network stat)) 0;
          metricValue = \<lparr>IntValue = 0, FloatValue = 0,
                          MetricType = MetricCumulative, mv_ValueType = ValueInt64\<rparr>
      in if \<not> IsNode c then metricValue\<lparr>IntValue := txErrors\<rparr>
         else metricValue)"

definition MetricNetworkTxErrors :: Metric where
  "MetricNetworkTxErrors =
     \<lparr>Name = ''network/tx_errors'',
      Description = ''Cumulative number of errors while sending over the network'',
      Labels = [],
      Type = MetricCumulative,
      ValueType = ValueInt64,
      Units = UnitsCount,
      HasValue = Some MetricNetworkTxErrors_HasValue,
      GetValue = Some (\<lambda>now. MetricNetworkTxErrors_GetValue),
      HasLabeledMetric = None,
      GetLabeledMetric = None\<rparr>"

subsection \<open>Additional metrics\<close>

definition MetricCpuRequest :: Metric where
  "MetricCpuRequest =
     \<lparr>Name = ''cpu/request'',
      Description = ''CPU request (the guaranteed amount of resources) in millicores. This metric is Kubernetes specific.'',
      Labels = [],
      Type = MetricGauge,
      ValueType = ValueInt64,
      Units = UnitsCount,
      HasValue = None,
      GetValue = None,
      HasLabeledMetric = None,
      GetLabeledMetric = None\<rparr>"

definition MetricCpuLimit :: Metric where
  "MetricCpuLimit =
     \<lparr>Name = ''cpu/limit'',
      Description = ''CPU hard limit in millicores.'',
      Labels = [],
      Type = MetricGauge,
      ValueType = ValueInt64,
      Units = UnitsCount,
      HasValue = None,
      GetValue = None,
      HasLabeledMetric = None,
      GetLabeledMetric = None\<rparr>"

definition MetricMemoryRequest :: Metric where
  "MetricMemoryRequest =
     \<lparr>Name = ''memory/request'',
      Description = ''Memory request (the guaranteed amount of resources) in bytes. This metric is Kubernetes specific.'',
      Labels = [],
      Type = MetricGauge,
      ValueType = ValueInt64,
      Units = UnitsBytes,
      HasValue = None,
      GetValue = None,
      HasLabeledMetric = None,
      GetLabeledMetric = None\<rparr>"

definition MetricMemoryLimit :: Metric where
  "MetricMemoryLimit =
     \<lparr>Name = ''memory/limit'',
      Description = ''Memory hard limit in bytes.'',
      Labels = [],
      Type = MetricGauge,
      ValueType = ValueInt64,
      Units = UnitsBytes,
      HasValue = None,
      GetValue = None,
      HasLabeledMetric = None,
      GetLabeledMetric = None\<rparr>"

subsection \<open>Rate metrics and node metrics\<close>

definition MetricCpuUsageRate :: Metric where
  "MetricCpuUsageRate =
     \<lparr>Name = ''cpu/usage_rate'',
      Description = ''CPU usage on all cores in millicores'',
      Labels = [],
      Type = MetricGauge,
      ValueType = ValueInt64,
      Units = UnitsCount,
      HasValue = None,
      GetValue = None,
      HasLabeledMetric = None,
      GetLabeledMetric = None\<rparr>"

definition MetricMemoryPageFaultsRate :: Metric where
  "MetricMemoryPageFaultsRate =
     \<lparr>Name = ''memory/page_faults_rate'',
      Description = ''Rate of page faults in counts per second'',
      Labels = [],
      Type = MetricGauge,
      ValueType = ValueFloat,
      Units = UnitsCount,
      HasValue = None,
      GetValue = None,
      HasLabeledMetric = None,
      GetLabeledMetric = None\<rparr>"

definition MetricMemoryMajorPageFaultsRate :: Metric where
  "MetricMemoryMajorPageFaultsRate =
     \<lparr>Name = ''memory/major_page_faults_rate'',
      Description = ''Rate of major page faults in counts per second'',
      Labels = [],
      Type = MetricGauge,
      ValueType = ValueFloat,
      Units = UnitsCount,
      HasValue = None,
      GetValue = None,
      HasLabeledMetric = None,
      GetLabeledMetric = None\<rparr>"

definition MetricNetworkRxRate :: Metric where
  "MetricNetworkRxRate =
     \<lparr>Name = ''network/rx_rate'',
      Description = ''Rate of bytes received over the network in bytes per second'',
      Labels = [],
      Type = MetricGauge,
      ValueType = ValueFloat,
      Units = UnitsCount,
      HasValue = None,
      GetValue = None,
      HasLabeledMetric = None,
      GetLabeledMetric = None\<rparr>"

definition MetricNetworkRxErrorsRate :: Metric where
  "MetricNetworkRxErrorsRate =
     \<lparr>Name = ''network/rx_errors_rate'',
      Description = ''Rate of errors sending over the network in errors per second'',
      Labels = [],
      Type = MetricGauge,
      ValueType = ValueFloat,
      Units = UnitsCount,
      HasValue = None,
      GetValue = None,
      HasLabeledMetric = None,
      GetLabeledMetric = None\<rparr>"

definition MetricNetworkTxRate :: Metric where
  "MetricNetworkTxRate =
     \<lparr>Name = ''network/tx_rate'',
      Description = ''Rate of bytes transmitted over the network in bytes per second'',
      Labels = [],
      Type = MetricGauge,
      ValueType = ValueFloat,
      Units = UnitsCount,
      HasValue = None,
      GetValue = None,
      HasLabeledMetric = None,
      GetLabeledMetric = None\<rparr>"

definition MetricNetworkTxErrorsRate :: Metric where
  "MetricNetworkTxErrorsRate =
     \<lparr>Name = ''network/tx_errors_rate'',
      Description = ''Rate of errors transmitting over the network in errors per second'',
      Labels = [],
      Type = MetricGauge,
      ValueType = ValueFloat,
      Units = UnitsCount,
      HasValue = None,
      GetValue = None,
      HasLabeledMetric = None,
      GetLabeledMetric = None\<rparr>"

definition MetricNodeCpuCapacity :: Metric where
  "MetricNodeCpuCapacity =
     \<lparr>Name = ''cpu/node_capacity'',
      Description = ''Cpu capacity of a node'',
      Labels = [],
      Type = MetricGauge,
      ValueType = ValueFloat,
      Units = UnitsCount,
      HasValue = None,
      GetValue = None,
      HasLabeledMetric = None,
      GetLabeledMetric = None\<rparr>"

definition MetricNodeMemoryCapacity :: Metric where
  "MetricNodeMemoryCapacity =
     \<lparr>Name = ''memory/node_capacity'',
      Description = ''Memory capacity of a node'',
      Labels = [],
      Type = MetricGauge,
      ValueType = ValueFloat,
      Units = UnitsCount,
      HasValue = None,
      GetValue = None,
      HasLabeledMetric = None,
      GetLabeledMetric = None\<rparr>"

definition MetricNodeCpuAllocatable :: Metric where
  "MetricNodeCpuAllocatable =
     \<lparr>Name = ''cpu/node_allocatable'',
      Description = ''Cpu allocatable of a node'',
      Labels = [],
      Type = MetricGauge,
      ValueType = ValueFloat,
      Units = UnitsCount,
      HasValue = None,
      GetValue = None,
      HasLabeledMetric = None,
      GetLabeledMetric = None\<rparr>"

definition MetricNodeMemoryAllocatable :: Metric where
  "MetricNodeMemoryAllocatable =
     \<lparr>Name = ''memory/node_allocatable'',
      Description = ''Memory allocatable of a node'',
      Labels = [],
      Type = MetricGauge,
      ValueType = ValueFloat,
      Units = UnitsCount,
      HasValue = None,
      GetValue = None,
      HasLabeledMetric = None,
      GetLabeledMetric = None\<rparr>"

definition MetricNodeCpuUtilization :: Metric where
  "MetricNodeCpuUtilization =
     \<lparr>Name = ''cpu/node_utilization'',
      Description = ''Cpu utilization as a share of node capacity'',
      Labels = [],
      Type = MetricGauge,
      ValueType = ValueFloat,
      Units = UnitsCount,
      HasValue = None,
      GetValue = None,
      HasLabeledMetric = None,
      GetLabeledMetric = None\<rparr>"

definition MetricNodeMemoryUtilization :: Metric where
  "MetricNodeMemoryUtilization =
     \<lparr>Name = ''memory/node_utilization'',
      Description = ''Memory utilization as a share of memory capacity'',
      Labels = [],
      Type = MetricGauge,
      ValueType = ValueFloat,
      Units = UnitsCount,
      HasValue = None,
      GetValue = None,
      HasLabeledMetric = None,
      GetLabeledMetric = None\<rparr>"

definition MetricNodeCpuReservation :: Metric where
  "MetricNodeCpuReservation =
     \<lparr>Name = ''cpu/node_reservation'',
      Description = ''Share of cpu that is reserved on the node'',
      Labels = [],
      Type = MetricGauge,
      ValueType = ValueFloat,
      Units = UnitsCount,
      HasValue = None,
      GetValue = None,
      HasLabeledMetric = None,
      GetLabeledMetric = None\<rparr>"

definition MetricNodeMemoryReservation :: Metric where
  "MetricNodeMemoryReservation =
     \<lparr>Name = ''memory/node_reservation'',
      Description = ''Share of memory that is reserved on the node'',
      Labels = [],
      Type = MetricGauge,
      ValueType = ValueFloat,
      Units = UnitsCount,
      HasValue = None,
      GetValue = None,
      HasLabeledMetric = None,
      GetLabeledMetric = None\<rparr>"

subsection \<open>Labeled metrics\<close>

text \<open>
  Each extractor is a \<^verbatim>\<open>for ... range\<close> loop that appends to \<open>result\<close>: a fold over the
  records of the sample, in their order, from the empty result.
\<close>

definition MetricFilesystemUsage_HasLabeledMetric :: "ContainerSpec \<Rightarrow> ContainerStats \<Rightarrow> bool" where
  "MetricFilesystemUsage_HasLabeledMetric spec stat = HasFilesystem spec"

definition MetricFilesystemUsage_GetLabeledMetric :: "ContainerInfo \<Rightarrow> ContainerStats \<Rightarrow> LabeledMetric list" where
  "MetricFilesystemUsage_GetLabeledMetric c stat =
     fold (\<lambda>fs result. result @
             [\<lparr>IntValue = fs_Usage fs, FloatValue = 0,
               MetricType = MetricGauge, mv_ValueType = ValueInt64,
               lm_Name = ''filesystem/usage'',
               lm_Labels = [Key LabelResourceID \<mapsto> fs_Device fs]\<rparr>])
          (Filesystem stat) []"

definition MetricFilesystemUsage :: Metric where
  "MetricFilesystemUsage =
     \<lparr>Name = ''filesystem/usage'',
      Description = ''Total number of bytes consumed on a filesystem'',
      Labels = metricLabels,
      Type = MetricGauge,
      ValueType = ValueInt64,
      Units = UnitsBytes,
      HasValue = None,
      GetValue = None,
      HasLabeledMetric = Some MetricFilesystemUsage_HasLabeledMetric,
      GetLabeledMetric = Some MetricFilesystemUsage_GetLabeledMetric\<rparr>"

definition MetricFilesystemLimit_HasLabeledMetric :: "ContainerSpec \<Rightarrow> ContainerStats \<Rightarrow> bool" where
  "MetricFilesystemLimit_HasLabeledMetric spec stat = HasFilesystem spec"

definition MetricFilesystemLimit_GetLabeledMetric :: "ContainerInfo \<Rightarrow> ContainerStats \<Rightarrow> LabeledMetric list" where
  "MetricFilesystemLimit_GetLabeledMetric c stat =
     fold (\<lambda>fs result. result @
             [\<lparr>IntValue = Limit fs, FloatValue = 0,
               MetricType = MetricGauge, mv_ValueType = ValueInt64,
               lm_Name = ''filesystem/limit'',
               lm_Labels = [Key LabelResourceID \<mapsto> fs_Device fs]\<rparr>])
          (Filesystem stat) []"

definition MetricFilesystemLimit :: Metric where
  "MetricFilesystemLimit =
     \<lparr>Name = ''filesystem/limit'',
      Description = ''The total size of filesystem in bytes'',
      Labels = metricLabels,
      Type = MetricGauge,
      ValueType = ValueInt64,
      Units = UnitsBytes,
      HasValue = None,
      GetValue = None,
      HasLabeledMetric = Some MetricFilesystemLimit_HasLabeledMetric,
      GetLabeledMetric = Some MetricFilesystemLimit_GetLabeledMetric\<rparr>"

definition MetricFilesystemAvailable :: Metric where
  "MetricFilesystemAvailable =
     \<lparr>Name = ''filesystem/available'',
      Description = ''The number of available bytes remaining in a the filesystem'',
      Labels = metricLabels,
      Type = MetricGauge,
      ValueType = ValueInt64,
      Units = UnitsBytes,
      HasValue = None,
      GetValue = None,
      HasLabeledMetric = None,
      GetLabeledMetric = None\<rparr>"

definition MetricFilesystemInodes_HasLabeledMetric :: "ContainerSpec \<Rightarrow> ContainerStats \<Rightarrow> bool" where
  "MetricFilesystemInodes_HasLabeledMetric spec stat = HasFilesystem spec"

definition MetricFilesystemInodes_GetLabeledMetric :: "ContainerInfo \<Rightarrow> ContainerStats \<Rightarrow> LabeledMetric list" where
  "MetricFilesystemInodes_GetLabeledMetric c stat =
     fold (\<lambda>fs result.
             if HasInodes fs
             then result @
               [\<lparr>IntValue = Inodes fs, FloatValue = 0,
                 MetricType = MetricGauge, mv_ValueType = ValueInt64,
                 lm_Name = ''filesystem/inodes'',
                 lm_Labels = [Key LabelResourceID \<mapsto> fs_Device fs]\<rparr>]
             else result)
          (Filesystem stat) []"

definition MetricFilesystemInodes :: Metric where
  "MetricFilesystemInodes =
     \<lparr>Name = ''filesystem/inodes'',
      Description = ''Total number of inodes on a filesystem'',
      Labels = metricLabels,
      Type = MetricGauge,
      ValueType = ValueInt64,
      Units = UnitsBytes,
      HasValue = None,
      GetValue = None,
      HasLabeledMetric = Some MetricFilesystemInodes_HasLabeledMetric,
      GetLabeledMetric = Some MetricFilesystemInodes_GetLabeledMetric\<rparr>"

definition MetricFilesystemInodesFree_HasLabeledMetric :: "ContainerSpec \<Rightarrow> ContainerStats \<Rightarrow> bool" where
  "MetricFilesystemInodesFree_HasLabeledMetric spec stat = HasFilesystem spec"

definition MetricFilesystemInodesFree_GetLabeledMetric :: "ContainerInfo \<Rightarrow> ContainerStats \<Rightarrow> LabeledMetric list" where
  "MetricFilesystemInodesFree_GetLabeledMetric c stat =
     fold (\<lambda>fs result.
             if HasInodes fs
             then result @
               [\<lparr>IntValue = InodesFree fs, FloatValue = 0,
                 MetricType = MetricGauge, mv_ValueType = ValueInt64,
                 lm_Name = ''filesystem/inodes_free'',
                 lm_Labels = [Key LabelResourceID \<mapsto> fs_Device fs]\<rparr>]
             else result)
          (Filesystem stat) []"

definition MetricFilesystemInodesFree :: Metric where
  "MetricFilesystemInodesFree =
     \<lparr>Name = ''filesystem/inodes_free'',
      Description = ''Free number of inodes on a filesystem'',
      Labels = metricLabels,
      Type = MetricGauge,
      ValueType = ValueInt64,
      Units = UnitsBytes,
      HasValue = None,
      GetValue = None,
      HasLabeledMetric = Some MetricFilesystemInodesFree_HasLabeledMetric,
      GetLabeledMetric = Some MetricFilesystemInodesFree_GetLabeledMetric\<rparr>"

definition MetricDiskIORead_HasLabeledMetric :: "ContainerSpec \<Rightarrow> ContainerStats \<Rightarrow> bool" where
  "MetricDiskIORead_HasLabeledMetric spec stat = HasDiskIo spec"

definition MetricDiskIORead_GetLabeledMetric :: "ContainerInfo \<Rightarrow> ContainerStats \<Rightarrow> LabeledMetric list" where
  "MetricDiskIORead_GetLabeledMetric info stat =
     fold (\<lambda>ioServiceBytesPerPartition result.
             let resourceIDKey =
                   (if pd_Device ioServiceBytesPerPartition = ''''
                    then Sprintf_d_colon_d (Major ioServiceBytesPerPartition)
                           (Minor ioServiceBytesPerPartition)
                    else pd_Device ioServiceBytesPerPartition);
                 value =
                   (case Stats ioServiceBytesPerPartition ''Read'' of
                      Some v \<Rightarrow> v
                    | None \<Rightarrow> 0)
             in result @
               [\<lparr>IntValue = value, FloatValue = 0,
                 MetricType = MetricGauge, mv_ValueType = ValueInt64,
                 lm_Name = ''disk/io_read_bytes'',
                 lm_Labels = [Key LabelResourceID \<mapsto> resourceIDKey]\<rparr>])
          (IoServiceBytes (DiskIo stat)) []"

definition MetricDiskIORead :: Metric where
  "MetricDiskIORead =
     \<lparr>Name = ''disk/io_read_bytes'',
      Description = ''Cumulative number of bytes read over disk'',
      Labels = metricLabels,
      Type = MetricCumulative,
      ValueType = ValueInt64,
      Units = UnitsBytes,
      HasValue = None,
      GetValue = None,
      HasLabeledMetric = Some MetricDiskIORead_HasLabeledMetric,
      GetLabeledMetric = Some MetricDiskIORead_GetLabeledMetric\<rparr>"

definition MetricDiskIOWrite_HasLabeledMetric :: "ContainerSpec \<Rightarrow> ContainerStats \<Rightarrow> bool" where
  "MetricDiskIOWrite_HasLabeledMetric spec stat = HasDiskIo spec"

definition MetricDiskIOWrite_GetLabeledMetric :: "ContainerInfo \<Rightarrow> ContainerStats \<Rightarrow> LabeledMetric list" where
  "MetricDiskIOWrite_GetLabeledMetric info stat =
     fold (\<lambda>ioServiceBytesPerPartition result.
             let resourceIDKey =
                   (if pd_Device ioServiceBytesPerPartition = ''''
                    then Sprintf_d_colon_d (Major ioServiceBytesPerPartition)
                           (Minor ioServiceBytesPerPartition)
                    else pd_Device ioServiceBytesPerPartition);
                 value =
                   (case Stats ioServiceBytesPerPartition ''Write'' of
                      Some v \<Rightarrow> v
                    | None \<Rightarrow> 0)
             in result @
               [\<lparr>IntValue = value, FloatValue = 0,
                 MetricType = MetricGauge, mv_ValueType = ValueInt64,
                 lm_Name = ''disk/io_write_bytes'',
                 lm_Labels = [Key LabelResourceID \<mapsto> resourceIDKey]\<rparr>])
          (IoServiceBytes (DiskIo stat)) []"

definition MetricDiskIOWrite :: Metric where
  "MetricDiskIOWrite =
     \<lparr>Name = ''disk/io_write_bytes'',
      Description = ''Cumulative number of bytes write over disk'',
      Labels = metricLabels,
      Type = MetricCumulative,
      ValueType = ValueInt64,
      Units = UnitsBytes,
      HasValue = None,
      GetValue = None,
      HasLabeledMetric = Some MetricDiskIOWrite_HasLabeledMetric,
      GetLabeledMetric = Some MetricDiskIOWrite_GetLabeledMetric\<rparr>"

definition MetricDiskIOReadRate :: Metric where
  "MetricDiskIOReadRate =
     \<lparr>Name = ''disk/io_read_bytes_rate'',
      Description = ''Rate of bytes read over disk in bytes per second'',
      Labels = metricLabels,
      Type = MetricGauge,
      ValueType = ValueFloat,
      Units = UnitsCount,
      HasValue = None,
      GetValue = None,
      HasLabeledMetric = None,
      GetLabeledMetric = None\<rparr>"

definition MetricDiskIOWriteRate :: Metric where
  "MetricDiskIOWriteRate =
     \<lparr>Name = ''disk/io_write_bytes_rate'',
      Description = ''Rate of bytes written over disk in bytes per second'',
      Labels = metricLabels,
      Type = MetricGauge,
      ValueType = ValueFloat,
      Units = UnitsCount,
      HasValue = None,
      GetValue = None,
      HasLabeledMetric = None,
      GetLabeledMetric = None\<rparr>"

definition MetricAcceleratorMemoryTotal_HasLabeledMetric :: "ContainerSpec \<Rightarrow> ContainerStats \<Rightarrow> bool" where
  "MetricAcceleratorMemoryTotal_HasLabeledMetric spec stat =
     (if length (Accelerators stat) = 0 then False else True)"

definition MetricAcceleratorMemoryTotal_GetLabeledMetric :: "ContainerInfo \<Rightarrow> ContainerStats \<Rightarrow> LabeledMetric list" where
  "MetricAcceleratorMemoryTotal_GetLabeledMetric info stat =
     fold (\<lambda>ac result. result @
             [\<lparr>IntValue = MemoryTotal ac, FloatValue = 0,
               MetricType = MetricGauge, mv_ValueType = ValueInt64,
               lm_Name = ''accelerator/memory_total'',
               lm_Labels = [Key LabelAcceleratorMake \<mapsto> Make ac,
                            Key LabelAcceleratorModel \<mapsto> Model ac,
                            Key LabelAcceleratorID \<mapsto> ID ac]\<rparr>])
          (Accelerators stat) []"

definition MetricAcceleratorMemoryTotal :: Metric where
  "MetricAcceleratorMemoryTotal =
     \<lparr>Name = ''accelerator/memory_total'',
      Description = ''Total accelerator memory (in bytes)'',
      Labels = acceleratorLabels,
      Type = MetricGauge,
      ValueType = ValueInt64,
      Units = UnitsBytes,
      HasValue = None,
      GetValue = None,
      HasLabeledMetric = Some MetricAcceleratorMemoryTotal_HasLabeledMetric,
      GetLabeledMetric = Some MetricAcceleratorMemoryTotal_GetLabeledMetric\<rparr>"

definition MetricAcceleratorMemoryUsed_HasLabeledMetric :: "ContainerSpec \<Rightarrow> ContainerStats \<Rightarrow> bool" where
  "MetricAcceleratorMemoryUsed_HasLabeledMetric spec stat =
     (if length (Accelerators stat) = 0 then False else True)"

definition MetricAcceleratorMemoryUsed_GetLabeledMetric :: "ContainerInfo \<Rightarrow> ContainerStats \<Rightarrow> LabeledMetric list" where
  "MetricAcceleratorMemoryUsed_GetLabeledMetric info stat =
     fold (\<lambda>ac result. result @
             [\<lparr>IntValue = MemoryUsed ac, FloatValue = 0,
               MetricType = MetricGauge, mv_ValueType = ValueInt64,
               lm_Name = ''accelerator/memory_used'',
               lm_Labels = [Key LabelAcceleratorMake \<mapsto> Make ac,
                            Key LabelAcceleratorModel \<mapsto> Model ac,
                            Key LabelAcceleratorID \<mapsto> ID ac]\<rparr>])
          (Accelerators stat) []"

definition MetricAcceleratorMemoryUsed :: Metric where
  "MetricAcceleratorMemoryUsed =
     \<lparr>Name = ''accelerator/memory_used'',
      Description = ''Total accelerator memory allocated (in bytes)'',
      Labels = acceleratorLabels,
      Type = MetricGauge,
      ValueType = ValueInt64,
      Units = UnitsBytes,
      HasValue = None,
      GetValue = None,
      HasLabeledMetric = Some MetricAcceleratorMemoryUsed_HasLabeledMetric,
      GetLabeledMetric = Some MetricAcceleratorMemoryUsed_GetLabeledMetric\<rparr>"

definition MetricAcceleratorDutyCycle_HasLabeledMetric :: "ContainerSpec \<Rightarrow> ContainerStats \<Rightarrow> bool" where
  "MetricAcceleratorDutyCycle_HasLabeledMetric spec stat =
     (if length (Accelerators stat) = 0 then False else True)"

definition MetricAcceleratorDutyCycle_GetLabeledMetric :: "ContainerInfo \<Rightarrow> ContainerStats \<Rightarrow> LabeledMetric list" where
  "MetricAcceleratorDutyCycle_GetLabeledMetric info stat =
     fold (\<lambda>ac result. result @
             [\<lparr>IntValue = DutyCycle ac, FloatValue = 0,
               MetricType = MetricGauge, mv_ValueType = ValueInt64,
               lm_Name = ''accelerator/duty_cycle'',
               lm_Labels = [Key LabelAcceleratorMake \<mapsto> Make ac,
                            Key LabelAcceleratorModel \<mapsto> Model ac,
                            Key LabelAcceleratorID \<mapsto> ID ac]\<rparr>])
          (Accelerators stat) []"

definition MetricAcceleratorDutyCycle :: Metric where
  "MetricAcceleratorDutyCycle =
     \<lparr>Name = ''accelerator/duty_cycle'',
      Description = ''Percent of time over the past sample period (10s) during which the accelerator was actively processing'',
      Labels = acceleratorLabels,
      Type = MetricGauge,
      ValueType = ValueInt64,
      Units = UnitsCount,
      HasValue = None,
      GetValue = None,
      HasLabeledMetric = Some MetricAcceleratorDutyCycle_HasLabeledMetric,
      GetLabeledMetric = Some MetricAcceleratorDutyCycle_GetLabeledMetric\<rparr>"

subsection \<open>The metric lists\<close>

text \<open>
  The lists are slice literals of the metrics above; Go initialises package variables in
  dependency order, so each entry is the finished metric. The descriptor
  \<^verbatim>\<open>MetricNodeAcceleratorCapacity\<close> is an entry of none of the lists and its label list is
  declared elsewhere; it is not part of the development.
\<close>

definition StandardMetrics :: "Metric list" where
  "StandardMetrics =
     [MetricUptime,
      MetricCpuUsage,
      MetricMemoryCache,
      MetricMemoryRSS,
      MetricMemoryUsage,
      MetricMemoryRSS,
      MetricMemoryCache,
      MetricMemoryWorkingSet,
      MetricMemoryPageFaults,
      MetricMemoryMajorPageFaults,
      MetricNetworkRx,
      MetricNetworkRxErrors,
      MetricNetworkTx,
      MetricNetworkTxErrors]"

definition AdditionalMetrics :: "Metric list" where
  "AdditionalMetrics =
     [MetricCpuRequest,
      MetricCpuLimit,
      MetricMemoryRequest,
      MetricMemoryLimit]"

definition RateMetrics :: "Metric list" where
  "RateMetrics =
     [MetricCpuUsageRate,
      MetricNetworkRxRate,
      MetricNetworkTxRate,
      MetricDiskIOReadRate,
      MetricDiskIOWriteRate]"

definition RateMetricsMapping :: "string \<rightharpoonup> Metric" where
  "RateMetricsMapping =
     [Name MetricCpuUsage \<mapsto> MetricCpuUsageRate,
      Name MetricNetworkRx \<mapsto> MetricNetworkRxRate,
      Name MetricNetworkTx \<mapsto> MetricNetworkTxRate,
      Name MetricDiskIORead \<mapsto> MetricDiskIOReadRate,
      Name MetricDiskIOWrite \<mapsto> MetricDiskIOWriteRate]"

definition LabeledMetrics :: "Metric list" where
  "LabeledMetrics =
     [MetricDiskIORead,
      MetricDiskIOReadRate,
      MetricDiskIOWrite,
      MetricDiskIOWriteRate,
      MetricFilesystemUsage,
      MetricFilesystemLimit,
      MetricFilesystemAvailable,
      MetricFilesystemInodes,
      MetricFilesystemInodesFree,
      MetricAcceleratorMemoryTotal,
      MetricAcceleratorMemoryUsed,
      MetricAcceleratorDutyCycle]"

definition NodeAutoscalingMetrics :: "Metric list" where
  "NodeAutoscalingMetrics =
     [MetricNodeCpuCapacity,
      MetricNodeMemoryCapacity,
      MetricNodeCpuAllocatable,
      MetricNodeMemoryAllocatable,
      MetricNodeCpuUtilization,
      MetricNodeMemoryUtilization,
      MetricNodeCpuReservation,
      MetricNodeMemoryReservation]"

definition CpuMetrics :: "Metric list" where
  "CpuMetrics =
     [MetricCpuLimit,
      MetricCpuRequest,
      MetricCpuUsage,
      MetricCpuUsageRate,
      MetricNodeCpuAllocatable,
      MetricNodeCpuCapacity,
      MetricNodeCpuReservation,
      MetricNodeCpuUtilization]"

definition FilesystemMetrics :: "Metric list" where
  "FilesystemMetrics =
     [MetricFilesystemAvailable,
      MetricFilesystemLimit,
      MetricFilesystemUsage,
      MetricFilesystemInodes,
      MetricFilesystemInodesFree]"

definition MemoryMetrics :: "Metric list" where
  "MemoryMetrics =
     [MetricMemoryLimit,
      MetricMemoryMajorPageFaults,
      MetricMemoryPageFaults,
      MetricMemoryRequest,
      MetricMemoryUsage,
      MetricMemoryRSS,
      MetricMemoryCache,
      MetricMemoryWorkingSet,
      MetricNodeMemoryAllocatable,
      MetricNodeMemoryCapacity,
      MetricNodeMemoryUtilization,
      MetricNodeMemoryReservation]"

definition NetworkMetrics :: "Metric list" where
  "NetworkMetrics =
     [MetricNetworkRx,
      MetricNetworkRxErrors,
      MetricNetworkRxRate,
      MetricNetworkTx,
      MetricNetworkTxErrors,
      MetricNetworkTxRate]"

subsection \<open>Families, the full list and the lookups\<close>

text \<open>
  \<^verbatim>\<open>MetricFamily\<close> is a string type; its five constants are string literals.
\<close>

type_synonym MetricFamily = string

definition MetricFamilyCpu :: MetricFamily where
  "MetricFamilyCpu = ''cpu''"

definition MetricFamilyFilesystem :: MetricFamily where
  "MetricFamilyFilesystem = ''filesystem''"

definition MetricFamilyMemory :: MetricFamily where
  "MetricFamilyMemory = ''memory''"

definition MetricFamilyNetwork :: MetricFamily where
  "MetricFamilyNetwork = ''network''"

definition MetricFamilyGeneral :: MetricFamily where
  "MetricFamilyGeneral = ''general''"

definition MetricFamilies :: "MetricFamily \<rightharpoonup> Metric list" where
  "MetricFamilies =
     [MetricFamilyCpu \<mapsto> CpuMetrics,
      MetricFamilyFilesystem \<mapsto> FilesystemMetrics,
      MetricFamilyMemory \<mapsto> MemoryMetrics,
      MetricFamilyNetwork \<mapsto> NetworkMetrics]"

text \<open>
  \<^verbatim>\<open>MetricFamilyForName\<close> ranges over the map \<^verbatim>\<open>MetricFamilies\<close>. Go leaves the
  order of a range over a map open and varies it from one run to the next, so the order
  the keys are visited in is an argument: \<open>range_order\<close> holds of the orders a range
  over the map may take, each key once.
\<close>

definition range_order :: "'k list \<Rightarrow> ('k \<rightharpoonup> 'v) \<Rightarrow> bool" where
  "range_order ks m = (distinct ks \<and> set ks = dom m)"

text \<open>The inner loop: is there a metric of the list with this name?\<close>

fun name_in :: "string \<Rightarrow> Metric list \<Rightarrow> bool" where
  "name_in metricName [] = False"
| "name_in metricName (metric # metrics) =
     (if metricName = Name metric then True else name_in metricName metrics)"

fun MetricFamilyForName_range ::
  "(MetricFamily \<rightharpoonup> Metric list) \<Rightarrow> MetricFamily list \<Rightarrow> string \<Rightarrow> MetricFamily" where
  "MetricFamilyForName_range families [] metricName = MetricFamilyGeneral"
| "MetricFamilyForName_range families (family # rest) metricName =
     (case families family of
        None \<Rightarrow> MetricFamilyForName_range families rest metricName
      | Some metrics \<Rightarrow>
          if name_in metricName metrics then family
          else MetricFamilyForName_range families rest metricName)"

definition MetricFamilyForName :: "MetricFamily list \<Rightarrow> string \<Rightarrow> MetricFamily" where
  "MetricFamilyForName order metricName =
     MetricFamilyForName_range MetricFamilies order metricName"

definition AllMetrics :: "Metric list" where
  "AllMetrics =
     (((StandardMetrics @ AdditionalMetrics) @ RateMetrics) @ LabeledMetrics)
       @ NodeAutoscalingMetrics"

fun IsNodeAutoscalingMetric_range :: "Metric list \<Rightarrow> string \<Rightarrow> bool" where
  "IsNodeAutoscalingMetric_range [] name = False"
| "IsNodeAutoscalingMetric_range (autoscalingMetric # rest) name =
     (if Name autoscalingMetric = name then True
      else IsNodeAutoscalingMetric_range rest name)"

definition IsNodeAutoscalingMetric :: "string \<Rightarrow> bool" where
  "IsNodeAutoscalingMetric name = IsNodeAutoscalingMetric_range NodeAutoscalingMetrics name"

subsection \<open>Calling a function-valued field\<close>

text \<open>
  Calling a field that is nil panics; the call of a field that is set returns its result.
  \<open>None\<close> is the panic.
\<close>

definition call_HasValue :: "Metric \<Rightarrow> ContainerSpec \<Rightarrow> bool option" where
  "call_HasValue m spec = (case HasValue m of None \<Rightarrow> None | Some f \<Rightarrow> Some (f spec))"

definition call_GetValue ::
  "Metric \<Rightarrow> Time \<Rightarrow> ContainerInfo \<Rightarrow> ContainerStats \<Rightarrow> MetricValue option" where
  "call_GetValue m now c stat =
     (case GetValue m of None \<Rightarrow> None | Some f \<Rightarrow> Some (f now c stat))"

definition call_GetLabeledMetric ::
  "Metric \<Rightarrow> ContainerInfo \<Rightarrow> ContainerStats \<Rightarrow> LabeledMetric list option" where
  "call_GetLabeledMetric m c stat =
     (case GetLabeledMetric m of None \<Rightarrow> None | Some f \<Rightarrow> Some (f c stat))"

subsection \<open>A sample to evaluate the extractors on\<close>

text \<open>
  The container of the sample was created on 2017-01-01 00:00:00 UTC, which is
  63618825600 seconds after the zero Time.
\<close>

definition example_spec :: ContainerSpec where
  "example_spec =
     \<lparr>CreationTime = 63618825600000000000, HasCpu = True, HasMemory = True, HasNetwork = True,
      HasFilesystem = True, HasDiskIo = True\<rparr>"

definition example_stats :: ContainerStats where
  "example_stats =
     \<lparr>Cpu = \<lparr>cpu_Usage = \<lparr>Total = 7\<rparr>\<rparr>,
      Memory = \<lparr>mem_Usage = 1048576, Cache = 11, RSS = 12, WorkingSet = 13,
                ContainerData = \<lparr>Pgfault = 14, Pgmajfault = 15\<rparr>\<rparr>,
      Network = \<lparr>Interfaces =
                  [\<lparr>RxBytes = 100, RxErrors = 1, TxBytes = 200, TxErrors = 2\<rparr>,
                   \<lparr>RxBytes = 300, RxErrors = 3, TxBytes = 400, TxErrors = 4\<rparr>]\<rparr>,
      Filesystem =
        [\<lparr>fs_Device = ''/dev/sda1'', Limit = 1000, fs_Usage = 400, HasInodes = True,
          Inodes = 64, InodesFree = 32\<rparr>,
         \<lparr>fs_Device = ''tmpfs'', Limit = 500, fs_Usage = 1, HasInodes = False,
          Inodes = 0, InodesFree = 0\<rparr>,
         \<lparr>fs_Device = ''/dev/sdb1'', Limit = 2000, fs_Usage = 5, HasInodes = True,
          Inodes = 128, InodesFree = 100\<rparr>],
      DiskIo = \<lparr>IoServiceBytes =
                 [\<lparr>pd_Device = '''', Major = 8, Minor = 1,
                   Stats = [''Write'' \<mapsto> 500]\<rparr>,
                  \<lparr>pd_Device = ''sda'', Major = 8, Minor = 0,
                   Stats = [''Read'' \<mapsto> 10, ''Write'' \<mapsto> 20]\<rparr>,
                  \<lparr>pd_Device = '''', Major = 259, Minor = 10,
                   Stats = [''Read'' \<mapsto> 7]\<rparr>]\<rparr>,
      Accelerators =
        [\<lparr>Make = ''nvidia'', Model = ''tesla-k80'', ID = ''GPU-0'',
          MemoryTotal = 4096, MemoryUsed = 1024, DutyCycle = 50\<rparr>]\<rparr>"

definition example_container :: ContainerInfo where
  "example_container = \<lparr>Spec = example_spec, Kind = Individual\<rparr>"

definition example_node :: ContainerInfo where
  "example_node = \<lparr>Spec = example_spec, Kind = Aggregate\<rparr>"

subsection \<open>Decimal notation\<close>

text \<open>
  What the verb \<^verbatim>\<open>%d\<close> has to produce, stated without the formatting routine: a decimal
  numeral is a non-empty string of the digits 0 to 9 that does not start with 0 unless it
  is the numeral 0, and its value is read from the left, digit by digit.
\<close>

definition is_digit :: "char \<Rightarrow> bool" where
  "is_digit ch = (ch \<in> set ''0123456789'')"

definition digit_value :: "char \<Rightarrow> nat" where
  "digit_value ch = of_char ch - 48"

definition numeral_value :: "string \<Rightarrow> nat" where
  "numeral_value s = foldl (\<lambda>v ch. 10 * v + digit_value ch) 0 s"

fun is_numeral :: "string \<Rightarrow> bool" where
  "is_numeral [] = False"
| "is_numeral [ch] = is_digit ch"
| "is_numeral (ch # rest) = (is_digit ch \<and> ch \<noteq> CHR ''0'' \<and> list_all is_digit rest)"

subsection \<open>Operations and what surrounds a call\<close>

text \<open>
  Two things outside the arguments can reach a result: the clock, which \<^verbatim>\<open>time.Since\<close>
  reads, and the order a range over the family table takes. A \<open>World\<close> holds both as
  they are at one call; \<open>possible_world\<close> holds when the order is one the range may take.
  \<open>invoke\<close> runs an extraction or a lookup in a world: \<^verbatim>\<open>GetValue\<close> gets the clock
  reading and \<^verbatim>\<open>MetricFamilyForName\<close> the order; the source of the labeled extractors,
  of \<^verbatim>\<open>IsNodeAutoscalingMetric\<close> (a range over a slice, in index order) and of the index
  into \<^verbatim>\<open>RateMetricsMapping\<close> has no call that reads either.
\<close>

record World =
  clock :: Time
  family_range :: "MetricFamily list"

definition possible_world :: "World \<Rightarrow> bool" where
  "possible_world w = range_order (family_range w) MetricFamilies"

datatype Operation =
    GetValue_of Metric ContainerInfo ContainerStats
  | GetLabeledMetric_of Metric ContainerInfo ContainerStats
  | MetricFamilyForName_of string
  | IsNodeAutoscalingMetric_of string
  | RateMetricsMapping_of string

datatype Outcome =
    Value "MetricValue option"
  | LabeledValues "LabeledMetric list option"
  | Family MetricFamily
  | Autoscaling bool
  | RateMetric "Metric option"

fun invoke :: "World \<Rightarrow> Operation \<Rightarrow> Outcome" where
  "invoke w (GetValue_of m c stat) = Value (call_GetValue m (clock w) c stat)"
| "invoke w (GetLabeledMetric_of m c stat) = LabeledValues (call_GetLabeledMetric m c stat)"
| "invoke w (MetricFamilyForName_of metricName) =
     Family (MetricFamilyForName (family_range w) metricName)"
| "invoke w (IsNodeAutoscalingMetric_of name) = Autoscaling (IsNodeAutoscalingMetric name)"
| "invoke w (RateMetricsMapping_of name) = RateMetric (RateMetricsMapping name)"

text \<open>
  The operations on the metrics of \<^verbatim>\<open>AllMetrics\<close>, and the one that is \<^verbatim>\<open>GetValue\<close>
  of uptime.
\<close>

fun on_registered_metric :: "Operation \<Rightarrow> bool" where
  "on_registered_metric (GetValue_of m c stat) = (m \<in> set AllMetrics)"
| "on_registered_metric (GetLabeledMetric_of m c stat) = (m \<in> set AllMetrics)"
| "on_registered_metric (MetricFamilyForName_of metricName) = True"
| "on_registered_metric (IsNodeAutoscalingMetric_of name) = True"
| "on_registered_metric (RateMetricsMapping_of name) = True"

fun is_uptime_GetValue :: "Operation \<Rightarrow> bool" where
  "is_uptime_GetValue (GetValue_of m c stat) = (Name m = ''uptime'')"
| "is_uptime_GetValue (GetLabeledMetric_of m c stat) = False"
| "is_uptime_GetValue (MetricFamilyForName_of metricName) = False"
| "is_uptime_GetValue (IsNodeAutoscalingMetric_of name) = False"
| "is_uptime_GetValue (RateMetricsMapping_of name) = False"

text \<open>
  Two worlds for the sample: the clock one hour after the creation of its container, and
  3 ms later with another order of the families.
\<close>

definition example_world :: World where
  "example_world =
     \<lparr>clock = 63618829200000000000,
      family_range = [MetricFamilyCpu, MetricFamilyFilesystem, MetricFamilyMemory,
                      MetricFamilyNetwork]\<rparr>"

definition example_world_later :: World where
  "example_world_later =
     \<lparr>clock = 63618829200003000000,
      family_range = [MetricFamilyNetwork, MetricFamilyMemory, MetricFamilyFilesystem,
                      MetricFamilyCpu]\<rparr>"

section \<open>Properties\<close>

subsection \<open>Suppression of node values\<close>

lemmas gated_defs =
  MetricCpuUsage_def MetricMemoryUsage_def MetricMemoryCache_def MetricMemoryRSS_def
  MetricMemoryWorkingSet_def MetricMemoryPageFaults_def MetricMemoryMajorPageFaults_def
  MetricNetworkRx_def MetricNetworkRxErrors_def MetricNetworkTx_def MetricNetworkTxErrors_def

lemmas gated_GetValue_defs =
  MetricCpuUsage_GetValue_def MetricMemoryUsage_GetValue_def MetricMemoryCache_GetValue_def
  MetricMemoryRSS_GetValue_def MetricMemoryWorkingSet_GetValue_def
  MetricMemoryPageFaults_GetValue_def MetricMemoryMajorPageFaults_GetValue_def
  MetricNetworkRx_GetValue_def MetricNetworkRxErrors_GetValue_def
  MetricNetworkTx_GetValue_def MetricNetworkTxErrors_GetValue_def

lemmas example_defs =
  example_spec_def example_stats_def example_container_def example_node_def

text \<open>
  Claim C1. For an entity that is a node, and any stats sample and clock reading,
  \<^verbatim>\<open>GetValue\<close> of each of the eleven gated scalar metrics (cpu/usage, memory/usage,
  memory/cache, memory/rss, memory/working_set, memory/page_faults,
  memory/major_page_faults, network/rx, network/rx_errors, network/tx,
  network/tx_errors) returns a value whose \<^verbatim>\<open>IntValue\<close> is 0, whatever the sample holds.
\<close>

theorem node_suppression:
  assumes "IsNode c"
  shows "map (\<lambda>m. map_option IntValue (call_GetValue m now c stat))
           [MetricCpuUsage, MetricMemoryUsage, MetricMemoryCache, MetricMemoryRSS,
            MetricMemoryWorkingSet, MetricMemoryPageFaults, MetricMemoryMajorPageFaults,
            MetricNetworkRx, MetricNetworkRxErrors, MetricNetworkTx, MetricNetworkTxErrors]
         = replicate 11 (Some 0)"
  using assms
  by (simp add: call_GetValue_def gated_defs gated_GetValue_defs Let_def numeral_eq_Suc)

text \<open>
  The sample has non-zero counters and every capability flag set, so that
  \<^verbatim>\<open>HasValue\<close> reports the metrics applicable; the same sample read for a container
  gives the memory usage of the sample.
\<close>

theorem node_suppression_witness:
  "IsNode example_node \<and>
   call_HasValue MetricMemoryUsage (Spec example_node) = Some True \<and>
   call_HasValue MetricCpuUsage (Spec example_node) = Some True \<and>
   call_HasValue MetricNetworkRx (Spec example_node) = Some True \<and>
   mem_Usage (Memory example_stats) = 1048576 \<and>
   map (\<lambda>m. map_option IntValue (call_GetValue m 0 example_node example_stats))
     [MetricCpuUsage, MetricMemoryUsage, MetricMemoryCache, MetricMemoryRSS,
      MetricMemoryWorkingSet, MetricMemoryPageFaults, MetricMemoryMajorPageFaults,
      MetricNetworkRx, MetricNetworkRxErrors, MetricNetworkTx, MetricNetworkTxErrors]
     = replicate 11 (Some 0) \<and>
   call_GetValue MetricMemoryUsage 0 example_container example_stats
     = Some \<lparr>IntValue = 1048576, FloatValue = 0, MetricType = MetricGauge,
             mv_ValueType = ValueInt64\<rparr>"
proof -
  have node: "IsNode example_node"
    by (simp add: IsNode_def example_node_def)
  have caps: "call_HasValue MetricMemoryUsage (Spec example_node) = Some True"
    "call_HasValue MetricCpuUsage (Spec example_node) = Some True"
    "call_HasValue MetricNetworkRx (Spec example_node) = Some True"
    by (simp_all add: call_HasValue_def MetricMemoryUsage_def MetricMemoryUsage_HasValue_def
        MetricCpuUsage_def MetricCpuUsage_HasValue_def MetricNetworkRx_def
        MetricNetworkRx_HasValue_def example_node_def example_spec_def)
  have raw: "mem_Usage (Memory example_stats) = 1048576"
    by (simp add: example_stats_def)
  have container:
    "call_GetValue MetricMemoryUsage 0 example_container example_stats
       = Some \<lparr>IntValue = 1048576, FloatValue = 0, MetricType = MetricGauge,
               mv_ValueType = ValueInt64\<rparr>"
    by (simp add: call_GetValue_def MetricMemoryUsage_def MetricMemoryUsage_GetValue_def
        IsNode_def example_container_def example_stats_def)
  show ?thesis
    using node caps raw container node_suppression [OF node, of 0 example_stats]
    by simp
qed

subsection \<open>The family of a name\<close>

lemma CpuMetrics_names:
  "map Name CpuMetrics =
     [''cpu/limit'', ''cpu/request'', ''cpu/usage'', ''cpu/usage_rate'',
      ''cpu/node_allocatable'', ''cpu/node_capacity'', ''cpu/node_reservation'',
      ''cpu/node_utilization'']"
  by (simp add: CpuMetrics_def MetricCpuLimit_def MetricCpuRequest_def MetricCpuUsage_def
      MetricCpuUsageRate_def MetricNodeCpuAllocatable_def MetricNodeCpuCapacity_def
      MetricNodeCpuReservation_def MetricNodeCpuUtilization_def)

lemma FilesystemMetrics_names:
  "map Name FilesystemMetrics =
     [''filesystem/available'', ''filesystem/limit'', ''filesystem/usage'',
      ''filesystem/inodes'', ''filesystem/inodes_free'']"
  by (simp add: FilesystemMetrics_def MetricFilesystemAvailable_def MetricFilesystemLimit_def
      MetricFilesystemUsage_def MetricFilesystemInodes_def MetricFilesystemInodesFree_def)

lemma MemoryMetrics_names:
  "map Name MemoryMetrics =
     [''memory/limit'', ''memory/major_page_faults'', ''memory/page_faults'',
      ''memory/request'', ''memory/usage'', ''memory/rss'', ''memory/cache'',
      ''memory/working_set'', ''memory/node_allocatable'', ''memory/node_capacity'',
      ''memory/node_utilization'', ''memory/node_reservation'']"
  by (simp add: MemoryMetrics_def MetricMemoryLimit_def MetricMemoryMajorPageFaults_def
      MetricMemoryPageFaults_def MetricMemoryRequest_def MetricMemoryUsage_def
      MetricMemoryRSS_def MetricMemoryCache_def MetricMemoryWorkingSet_def
      MetricNodeMemoryAllocatable_def MetricNodeMemoryCapacity_def
      MetricNodeMemoryUtilization_def MetricNodeMemoryReservation_def)

lemma NetworkMetrics_names:
  "map Name NetworkMetrics =
     [''network/rx'', ''network/rx_errors'', ''network/rx_rate'', ''network/tx'',
      ''network/tx_errors'', ''network/tx_rate'']"
  by (simp add: NetworkMetrics_def MetricNetworkRx_def MetricNetworkRxErrors_def
      MetricNetworkRxRate_def MetricNetworkTx_def MetricNetworkTxErrors_def
      MetricNetworkTxRate_def)

lemma name_in_iff: "name_in n ms \<longleftrightarrow> n \<in> set (map Name ms)"
  by (induction ms) auto

lemma range_found:
  assumes "families fam = Some ms" and "name_in n ms" and "fam \<in> set order"
    and "\<And>fam' ms'. families fam' = Some ms' \<Longrightarrow> name_in n ms' \<Longrightarrow> fam' = fam"
  shows "MetricFamilyForName_range families order n = fam"
  using assms(3)
proof (induction order)
  case Nil
  then show ?case by simp
next
  case (Cons k ks)
  show ?case
  proof (cases "families k")
    case None
    with assms(1) have "k \<noteq> fam" by auto
    with Cons None show ?thesis by simp
  next
    case (Some ms')
    show ?thesis
    proof (cases "name_in n ms'")
      case True
      with Some assms(4) have "k = fam" by blast
      with Some True show ?thesis by simp
    next
      case False
      with Some assms(1,2) have "k \<noteq> fam" by auto
      with Cons Some False show ?thesis by simp
    qed
  qed
qed

lemma range_not_found:
  assumes "\<And>fam ms. families fam = Some ms \<Longrightarrow> \<not> name_in n ms"
  shows "MetricFamilyForName_range families order n = MetricFamilyGeneral"
proof (induction order)
  case Nil
  then show ?case by simp
next
  case (Cons k ks)
  with assms show ?case by (cases "families k") auto
qed

lemmas family_consts =
  MetricFamilyCpu_def MetricFamilyFilesystem_def MetricFamilyMemory_def
  MetricFamilyNetwork_def

lemma MetricFamilies_Some:
  "MetricFamilies fam = Some ms \<longleftrightarrow>
     fam = MetricFamilyCpu \<and> ms = CpuMetrics \<or>
     fam = MetricFamilyFilesystem \<and> ms = FilesystemMetrics \<or>
     fam = MetricFamilyMemory \<and> ms = MemoryMetrics \<or>
     fam = MetricFamilyNetwork \<and> ms = NetworkMetrics"
  by (auto simp add: MetricFamilies_def family_consts)

lemma dom_MetricFamilies:
  "dom MetricFamilies =
     {MetricFamilyCpu, MetricFamilyFilesystem, MetricFamilyMemory, MetricFamilyNetwork}"
  by (auto simp add: MetricFamilies_def)

lemmas family_names =
  CpuMetrics_names FilesystemMetrics_names MemoryMetrics_names NetworkMetrics_names

lemma family_names_disjoint:
  "set (map Name CpuMetrics) \<inter> set (map Name FilesystemMetrics) = {}"
  "set (map Name CpuMetrics) \<inter> set (map Name MemoryMetrics) = {}"
  "set (map Name CpuMetrics) \<inter> set (map Name NetworkMetrics) = {}"
  "set (map Name FilesystemMetrics) \<inter> set (map Name MemoryMetrics) = {}"
  "set (map Name FilesystemMetrics) \<inter> set (map Name NetworkMetrics) = {}"
  "set (map Name MemoryMetrics) \<inter> set (map Name NetworkMetrics) = {}"
  by (simp_all add: family_names)

lemma family_names_unique:
  assumes "MetricFamilies f1 = Some ms1" and "MetricFamilies f2 = Some ms2"
    and "n \<in> set (map Name ms1)" and "n \<in> set (map Name ms2)"
  shows "f1 = f2"
  using assms family_names_disjoint unfolding MetricFamilies_Some by blast

lemma family_of_name:
  assumes "range_order order MetricFamilies"
    and "MetricFamilies fam = Some ms" and "n \<in> set (map Name ms)"
  shows "MetricFamilyForName order n = fam"
  unfolding MetricFamilyForName_def
proof (rule range_found [where families = MetricFamilies and ms = ms])
  show "MetricFamilies fam = Some ms" by (fact assms(2))
  show "name_in n ms" using assms(3) by (simp only: name_in_iff)
  show "fam \<in> set order" using assms(1,2) by (auto simp add: range_order_def)
  fix fam' ms'
  assume "MetricFamilies fam' = Some ms'" and "name_in n ms'"
  then show "fam' = fam"
    using assms(2,3) family_names_unique [of fam' ms' fam ms n]
    unfolding name_in_iff by blast
qed

lemma family_general:
  assumes "n \<notin> set (map Name (CpuMetrics @ FilesystemMetrics @ MemoryMetrics @ NetworkMetrics))"
  shows "MetricFamilyForName order n = MetricFamilyGeneral"
  unfolding MetricFamilyForName_def
proof (rule range_not_found)
  fix fam ms
  assume "MetricFamilies fam = Some ms"
  with assms show "\<not> name_in n ms"
    unfolding name_in_iff MetricFamilies_Some by auto
qed

text \<open>
  Claim C7. \<^verbatim>\<open>MetricFamilyForName\<close> returns a family for every name and every order
  the range over the family table may take: for a metric of one of the four family
  lists the family of that list, the lists having no name in common, and
  \<^verbatim>\<open>MetricFamilyGeneral\<close> for a name that is in none of the lists.
\<close>

theorem family_partition:
  assumes "range_order order MetricFamilies"
  shows "(m \<in> set CpuMetrics \<longrightarrow> MetricFamilyForName order (Name m) = MetricFamilyCpu) \<and>
         (m \<in> set FilesystemMetrics \<longrightarrow>
            MetricFamilyForName order (Name m) = MetricFamilyFilesystem) \<and>
         (m \<in> set MemoryMetrics \<longrightarrow> MetricFamilyForName order (Name m) = MetricFamilyMemory) \<and>
         (m \<in> set NetworkMetrics \<longrightarrow>
            MetricFamilyForName order (Name m) = MetricFamilyNetwork) \<and>
         (n \<notin> set (map Name (CpuMetrics @ FilesystemMetrics @ MemoryMetrics @ NetworkMetrics))
            \<longrightarrow> MetricFamilyForName order n = MetricFamilyGeneral) \<and>
         set (map Name CpuMetrics) \<inter> set (map Name FilesystemMetrics) = {} \<and>
         set (map Name CpuMetrics) \<inter> set (map Name MemoryMetrics) = {} \<and>
         set (map Name CpuMetrics) \<inter> set (map Name NetworkMetrics) = {} \<and>
         set (map Name FilesystemMetrics) \<inter> set (map Name MemoryMetrics) = {} \<and>
         set (map Name FilesystemMetrics) \<inter> set (map Name NetworkMetrics) = {} \<and>
         set (map Name MemoryMetrics) \<inter> set (map Name NetworkMetrics) = {}"
proof -
  have found: "MetricFamilyForName order (Name m) = fam"
    if "MetricFamilies fam = Some ms" and "m \<in> set ms" for fam ms
    using assms that by (intro family_of_name [where ms = ms]) simp_all
  have cpu: "MetricFamilies MetricFamilyCpu = Some CpuMetrics"
    and fs: "MetricFamilies MetricFamilyFilesystem = Some FilesystemMetrics"
    and mem: "MetricFamilies MetricFamilyMemory = Some MemoryMetrics"
    and net: "MetricFamilies MetricFamilyNetwork = Some NetworkMetrics"
    by (simp_all add: MetricFamilies_Some)
  show ?thesis
    using found [OF cpu] found [OF fs] found [OF mem] found [OF net]
      family_general [of n order] family_names_disjoint
    by blast
qed

theorem family_partition_witness:
  "range_order [MetricFamilyNetwork, MetricFamilyCpu, MetricFamilyMemory,
                MetricFamilyFilesystem] MetricFamilies \<and>
   MetricMemoryRSS \<in> set MemoryMetrics \<and>
   MetricFamilyForName [MetricFamilyNetwork, MetricFamilyCpu, MetricFamilyMemory,
                        MetricFamilyFilesystem] (Name MetricMemoryRSS) = MetricFamilyMemory \<and>
   ''uptime'' \<notin> set (map Name
      (CpuMetrics @ FilesystemMetrics @ MemoryMetrics @ NetworkMetrics)) \<and>
   MetricFamilyForName [MetricFamilyNetwork, MetricFamilyCpu, MetricFamilyMemory,
                        MetricFamilyFilesystem] ''uptime'' = MetricFamilyGeneral"
proof -
  have order: "range_order [MetricFamilyNetwork, MetricFamilyCpu, MetricFamilyMemory,
                            MetricFamilyFilesystem] MetricFamilies"
    unfolding range_order_def dom_MetricFamilies by (auto simp add: family_consts)
  have member: "MetricMemoryRSS \<in> set MemoryMetrics"
    by (simp add: MemoryMetrics_def)
  have absent: "''uptime'' \<notin> set (map Name
      (CpuMetrics @ FilesystemMetrics @ MemoryMetrics @ NetworkMetrics))"
    by (simp add: family_names)
  show ?thesis
    using order member absent family_partition [OF order, of MetricMemoryRSS "''uptime''"]
    by blast
qed

subsection \<open>The full list\<close>

lemma list_lengths:
  "length StandardMetrics = 14" "length AdditionalMetrics = 4" "length RateMetrics = 5"
  "length LabeledMetrics = 12" "length NodeAutoscalingMetrics = 8"
  by (simp_all add: StandardMetrics_def AdditionalMetrics_def RateMetrics_def
      LabeledMetrics_def NodeAutoscalingMetrics_def)

text \<open>
  Claim C2. The names of the entries of \<^verbatim>\<open>AllMetrics\<close> are not pairwise different:
  \<^verbatim>\<open>StandardMetrics\<close> lists \<^verbatim>\<open>MetricMemoryCache\<close> at positions 2 and 6 and
  \<^verbatim>\<open>MetricMemoryRSS\<close> at positions 3 and 5, and the two disk rate metrics are entries of
  both \<^verbatim>\<open>RateMetrics\<close> and \<^verbatim>\<open>LabeledMetrics\<close>.
\<close>

theorem AllMetrics_repeated_names:
  "Name (AllMetrics ! 2) = ''memory/cache'' \<and> Name (AllMetrics ! 6) = ''memory/cache'' \<and>
   Name (AllMetrics ! 3) = ''memory/rss'' \<and> Name (AllMetrics ! 5) = ''memory/rss'' \<and>
   Name (AllMetrics ! 21) = ''disk/io_read_bytes_rate'' \<and>
   Name (AllMetrics ! 24) = ''disk/io_read_bytes_rate'' \<and>
   Name (AllMetrics ! 22) = ''disk/io_write_bytes_rate'' \<and>
   Name (AllMetrics ! 26) = ''disk/io_write_bytes_rate'' \<and>
   \<not> distinct (map Name AllMetrics)"
  by (simp add: AllMetrics_def StandardMetrics_def AdditionalMetrics_def RateMetrics_def
      LabeledMetrics_def MetricMemoryCache_def MetricMemoryRSS_def MetricDiskIOReadRate_def
      MetricDiskIOWriteRate_def)

lemma AllMetrics_set:
  "set AllMetrics = set
     [MetricUptime, MetricCpuUsage, MetricMemoryCache, MetricMemoryRSS, MetricMemoryUsage,
      MetricMemoryWorkingSet, MetricMemoryPageFaults, MetricMemoryMajorPageFaults,
      MetricNetworkRx, MetricNetworkRxErrors, MetricNetworkTx, MetricNetworkTxErrors,
      MetricCpuRequest, MetricCpuLimit, MetricMemoryRequest, MetricMemoryLimit,
      MetricCpuUsageRate, MetricNetworkRxRate, MetricNetworkTxRate, MetricDiskIOReadRate,
      MetricDiskIOWriteRate, MetricDiskIORead, MetricDiskIOWrite, MetricFilesystemUsage,
      MetricFilesystemLimit, MetricFilesystemAvailable, MetricFilesystemInodes,
      MetricFilesystemInodesFree, MetricAcceleratorMemoryTotal, MetricAcceleratorMemoryUsed,
      MetricAcceleratorDutyCycle, MetricNodeCpuCapacity, MetricNodeMemoryCapacity,
      MetricNodeCpuAllocatable, MetricNodeMemoryAllocatable, MetricNodeCpuUtilization,
      MetricNodeMemoryUtilization, MetricNodeCpuReservation, MetricNodeMemoryReservation]"
  by (auto simp add: AllMetrics_def StandardMetrics_def AdditionalMetrics_def RateMetrics_def
      LabeledMetrics_def NodeAutoscalingMetrics_def)

lemma metric_names:
  "map Name
     [MetricUptime, MetricCpuUsage, MetricMemoryCache, MetricMemoryRSS, MetricMemoryUsage,
      MetricMemoryWorkingSet, MetricMemoryPageFaults, MetricMemoryMajorPageFaults,
      MetricNetworkRx, MetricNetworkRxErrors, MetricNetworkTx, MetricNetworkTxErrors,
      MetricCpuRequest, MetricCpuLimit, MetricMemoryRequest, MetricMemoryLimit,
      MetricCpuUsageRate, MetricNetworkRxRate, MetricNetworkTxRate, MetricDiskIOReadRate,
      MetricDiskIOWriteRate, MetricDiskIORead, MetricDiskIOWrite, MetricFilesystemUsage,
      MetricFilesystemLimit, MetricFilesystemAvailable, MetricFilesystemInodes,
      MetricFilesystemInodesFree, MetricAcceleratorMemoryTotal, MetricAcceleratorMemoryUsed,
      MetricAcceleratorDutyCycle, MetricNodeCpuCapacity, MetricNodeMemoryCapacity,
      MetricNodeCpuAllocatable, MetricNodeMemoryAllocatable, MetricNodeCpuUtilization,
      MetricNodeMemoryUtilization, MetricNodeCpuReservation, MetricNodeMemoryReservation]
   = [''uptime'', ''cpu/usage'', ''memory/cache'', ''memory/rss'', ''memory/usage'',
      ''memory/working_set'', ''memory/page_faults'', ''memory/major_page_faults'',
      ''network/rx'', ''network/rx_errors'', ''network/tx'', ''network/tx_errors'',
      ''cpu/request'', ''cpu/limit'', ''memory/request'', ''memory/limit'',
      ''cpu/usage_rate'', ''network/rx_rate'', ''network/tx_rate'',
      ''disk/io_read_bytes_rate'', ''disk/io_write_bytes_rate'', ''disk/io_read_bytes'',
      ''disk/io_write_bytes'', ''filesystem/usage'', ''filesystem/limit'',
      ''filesystem/available'', ''filesystem/inodes'', ''filesystem/inodes_free'',
      ''accelerator/memory_total'', ''accelerator/memory_used'', ''accelerator/duty_cycle'',
      ''cpu/node_capacity'', ''memory/node_capacity'', ''cpu/node_allocatable'',
      ''memory/node_allocatable'', ''cpu/node_utilization'', ''memory/node_utilization'',
      ''cpu/node_reservation'', ''memory/node_reservation'']"
  by (simp add: MetricUptime_def gated_defs MetricCpuRequest_def MetricCpuLimit_def
      MetricMemoryRequest_def MetricMemoryLimit_def MetricCpuUsageRate_def
      MetricNetworkRxRate_def MetricNetworkTxRate_def MetricDiskIOReadRate_def
      MetricDiskIOWriteRate_def MetricDiskIORead_def MetricDiskIOWrite_def
      MetricFilesystemUsage_def MetricFilesystemLimit_def MetricFilesystemAvailable_def
      MetricFilesystemInodes_def MetricFilesystemInodesFree_def
      MetricAcceleratorMemoryTotal_def MetricAcceleratorMemoryUsed_def
      MetricAcceleratorDutyCycle_def MetricNodeCpuCapacity_def MetricNodeMemoryCapacity_def
      MetricNodeCpuAllocatable_def MetricNodeMemoryAllocatable_def
      MetricNodeCpuUtilization_def MetricNodeMemoryUtilization_def
      MetricNodeCpuReservation_def MetricNodeMemoryReservation_def)

text \<open>
  The repetitions are repetitions of one and the same metric: two entries of
  \<^verbatim>\<open>AllMetrics\<close> with the same name are equal.
\<close>

lemma AllMetrics_name_determines_metric:
  assumes "m1 \<in> set AllMetrics" and "m2 \<in> set AllMetrics" and "Name m1 = Name m2"
  shows "m1 = m2"
proof -
  have "inj_on Name (set AllMetrics)"
    unfolding AllMetrics_set
    by (rule iffD1 [OF distinct_map, THEN conjunct2]) (simp only: metric_names, simp)
  with assms show ?thesis by (simp add: inj_on_def)
qed

text \<open>
  Claim C3, as stated: \<^verbatim>\<open>AllMetrics\<close> is the concatenation of the first four groups and
  nothing else. It is not: the node autoscaling metrics follow them.
\<close>

theorem AllMetrics_four_groups_counterexample:
  "AllMetrics \<noteq> StandardMetrics @ AdditionalMetrics @ RateMetrics @ LabeledMetrics"
proof
  assume "AllMetrics = StandardMetrics @ AdditionalMetrics @ RateMetrics @ LabeledMetrics"
  then have "length AllMetrics
      = length (StandardMetrics @ AdditionalMetrics @ RateMetrics @ LabeledMetrics)"
    by (rule arg_cong)
  then show False
    by (simp add: AllMetrics_def list_lengths)
qed

text \<open>
  Claim C3, amended. \<^verbatim>\<open>AllMetrics\<close> is the concatenation, in declaration order, of the
  five groups \<^verbatim>\<open>StandardMetrics\<close>, \<^verbatim>\<open>AdditionalMetrics\<close>, \<^verbatim>\<open>RateMetrics\<close>,
  \<^verbatim>\<open>LabeledMetrics\<close> and \<^verbatim>\<open>NodeAutoscalingMetrics\<close>, and has no other entry: its first
  35 entries are the first four groups, its last 8 the node autoscaling metrics.
\<close>

theorem AllMetrics_five_groups:
  "AllMetrics = StandardMetrics @ AdditionalMetrics @ RateMetrics @ LabeledMetrics
                  @ NodeAutoscalingMetrics \<and>
   length AllMetrics = 43 \<and>
   take 35 AllMetrics = StandardMetrics @ AdditionalMetrics @ RateMetrics @ LabeledMetrics \<and>
   drop 35 AllMetrics = NodeAutoscalingMetrics"
  by (simp add: AllMetrics_def list_lengths)

subsection \<open>The rate mapping\<close>

lemma map_literal5:
  assumes "distinct [a, b, c, d, e]"
  shows "[a \<mapsto> va, b \<mapsto> vb, c \<mapsto> vc, d \<mapsto> vd, e \<mapsto> ve] k = Some r \<longleftrightarrow>
     k = a \<and> r = va \<or> k = b \<and> r = vb \<or> k = c \<and> r = vc \<or> k = d \<and> r = vd \<or>
     k = e \<and> r = ve"
  using assms by auto

lemma RateMetricsMapping_Some:
  "RateMetricsMapping k = Some r \<longleftrightarrow>
     k = ''cpu/usage'' \<and> r = MetricCpuUsageRate \<or>
     k = ''network/rx'' \<and> r = MetricNetworkRxRate \<or>
     k = ''network/tx'' \<and> r = MetricNetworkTxRate \<or>
     k = ''disk/io_read_bytes'' \<and> r = MetricDiskIOReadRate \<or>
     k = ''disk/io_write_bytes'' \<and> r = MetricDiskIOWriteRate"
proof -
  have keys: "Name MetricCpuUsage = ''cpu/usage''" "Name MetricNetworkRx = ''network/rx''"
    "Name MetricNetworkTx = ''network/tx''" "Name MetricDiskIORead = ''disk/io_read_bytes''"
    "Name MetricDiskIOWrite = ''disk/io_write_bytes''"
    by (simp_all add: MetricCpuUsage_def MetricNetworkRx_def MetricNetworkTx_def
        MetricDiskIORead_def MetricDiskIOWrite_def)
  have "distinct [''cpu/usage'', ''network/rx'', ''network/tx'', ''disk/io_read_bytes'',
                  ''disk/io_write_bytes'']"
    by simp
  then show ?thesis
    unfolding RateMetricsMapping_def keys by (rule map_literal5)
qed

lemma rate_names:
  "Name MetricCpuUsageRate = ''cpu/usage_rate''"
  "Name MetricNetworkRxRate = ''network/rx_rate''"
  "Name MetricNetworkTxRate = ''network/tx_rate''"
  "Name MetricDiskIOReadRate = ''disk/io_read_bytes_rate''"
  "Name MetricDiskIOWriteRate = ''disk/io_write_bytes_rate''"
  by (simp_all add: MetricCpuUsageRate_def MetricNetworkRxRate_def MetricNetworkTxRate_def
      MetricDiskIOReadRate_def MetricDiskIOWriteRate_def)

text \<open>
  Claim C8. Every key of \<^verbatim>\<open>RateMetricsMapping\<close> resolves to a metric of
  \<^verbatim>\<open>RateMetrics\<close>, and two different keys resolve to rate metrics with different
  names, hence to different rate metrics.
\<close>

theorem rate_mapping_injective:
  "(k \<in> dom RateMetricsMapping \<longrightarrow>
      (\<exists>r. RateMetricsMapping k = Some r \<and> r \<in> set RateMetrics)) \<and>
   (RateMetricsMapping k1 = Some r1 \<and> RateMetricsMapping k2 = Some r2 \<and> k1 \<noteq> k2 \<longrightarrow>
      Name r1 \<noteq> Name r2 \<and> r1 \<noteq> r2)"
proof -
  have total: "r \<in> set RateMetrics" if "RateMetricsMapping k = Some r" for r
    using that unfolding RateMetricsMapping_Some by (auto simp add: RateMetrics_def)
  have inj: "Name r1 \<noteq> Name r2"
    if "RateMetricsMapping k1 = Some r1" and "RateMetricsMapping k2 = Some r2" and "k1 \<noteq> k2"
    using that unfolding RateMetricsMapping_Some by (auto simp add: rate_names)
  from total inj show ?thesis by auto
qed

theorem rate_mapping_injective_witness:
  "''cpu/usage'' \<in> dom RateMetricsMapping \<and>
   RateMetricsMapping ''cpu/usage'' = Some MetricCpuUsageRate \<and>
   RateMetricsMapping ''network/rx'' = Some MetricNetworkRxRate \<and>
   MetricCpuUsageRate \<in> set RateMetrics \<and>
   Name MetricCpuUsageRate \<noteq> Name MetricNetworkRxRate \<and>
   MetricCpuUsageRate \<noteq> MetricNetworkRxRate"
proof -
  have cpu: "RateMetricsMapping ''cpu/usage'' = Some MetricCpuUsageRate"
    and rx: "RateMetricsMapping ''network/rx'' = Some MetricNetworkRxRate"
    by (simp_all add: RateMetricsMapping_Some)
  have keys: "''cpu/usage'' \<noteq> ''network/rx''" by simp
  have member: "MetricCpuUsageRate \<in> set RateMetrics" by (simp add: RateMetrics_def)
  show ?thesis
    using cpu rx keys member
      rate_mapping_injective [of "''cpu/usage''" "''cpu/usage''" MetricCpuUsageRate
        "''network/rx''" MetricNetworkRxRate]
    by blast
qed

subsection \<open>Labeled extraction\<close>

lemma fold_append_map:
  "fold (\<lambda>x result. result @ [f x]) xs acc = acc @ map f xs"
  by (induction xs arbitrary: acc) simp_all

lemma fold_append_filter:
  "fold (\<lambda>x result. if P x then result @ [f x] else result) xs acc
     = acc @ map f (filter P xs)"
  by (induction xs arbitrary: acc) simp_all

lemma MetricFilesystemUsage_GetLabeledMetric_map:
  "MetricFilesystemUsage_GetLabeledMetric c stat =
     map (\<lambda>fs. \<lparr>IntValue = fs_Usage fs, FloatValue = 0, MetricType = MetricGauge,
                 mv_ValueType = ValueInt64, lm_Name = ''filesystem/usage'',
                 lm_Labels = [Key LabelResourceID \<mapsto> fs_Device fs]\<rparr>)
       (Filesystem stat)"
  unfolding MetricFilesystemUsage_GetLabeledMetric_def fold_append_map by simp

lemma MetricFilesystemLimit_GetLabeledMetric_map:
  "MetricFilesystemLimit_GetLabeledMetric c stat =
     map (\<lambda>fs. \<lparr>IntValue = Limit fs, FloatValue = 0, MetricType = MetricGauge,
                 mv_ValueType = ValueInt64, lm_Name = ''filesystem/limit'',
                 lm_Labels = [Key LabelResourceID \<mapsto> fs_Device fs]\<rparr>)
       (Filesystem stat)"
  unfolding MetricFilesystemLimit_GetLabeledMetric_def fold_append_map by simp

lemma MetricFilesystemInodes_GetLabeledMetric_map:
  "MetricFilesystemInodes_GetLabeledMetric c stat =
     map (\<lambda>fs. \<lparr>IntValue = Inodes fs, FloatValue = 0, MetricType = MetricGauge,
                 mv_ValueType = ValueInt64, lm_Name = ''filesystem/inodes'',
                 lm_Labels = [Key LabelResourceID \<mapsto> fs_Device fs]\<rparr>)
       (filter HasInodes (Filesystem stat))"
  unfolding MetricFilesystemInodes_GetLabeledMetric_def fold_append_filter by simp

lemma MetricFilesystemInodesFree_GetLabeledMetric_map:
  "MetricFilesystemInodesFree_GetLabeledMetric c stat =
     map (\<lambda>fs. \<lparr>IntValue = InodesFree fs, FloatValue = 0, MetricType = MetricGauge,
                 mv_ValueType = ValueInt64, lm_Name = ''filesystem/inodes_free'',
                 lm_Labels = [Key LabelResourceID \<mapsto> fs_Device fs]\<rparr>)
       (filter HasInodes (Filesystem stat))"
  unfolding MetricFilesystemInodesFree_GetLabeledMetric_def fold_append_filter by simp

lemma MetricDiskIORead_GetLabeledMetric_map:
  "MetricDiskIORead_GetLabeledMetric info stat =
     map (\<lambda>p. \<lparr>IntValue = (case Stats p ''Read'' of Some v \<Rightarrow> v | None \<Rightarrow> 0),
                FloatValue = 0, MetricType = MetricGauge, mv_ValueType = ValueInt64,
                lm_Name = ''disk/io_read_bytes'',
                lm_Labels = [Key LabelResourceID \<mapsto>
                  (if pd_Device p = '''' then Sprintf_d_colon_d (Major p) (Minor p)
                   else pd_Device p)]\<rparr>)
       (IoServiceBytes (DiskIo stat))"
  unfolding MetricDiskIORead_GetLabeledMetric_def Let_def fold_append_map by simp

lemma MetricDiskIOWrite_GetLabeledMetric_map:
  "MetricDiskIOWrite_GetLabeledMetric info stat =
     map (\<lambda>p. \<lparr>IntValue = (case Stats p ''Write'' of Some v \<Rightarrow> v | None \<Rightarrow> 0),
                FloatValue = 0, MetricType = MetricGauge, mv_ValueType = ValueInt64,
                lm_Name = ''disk/io_write_bytes'',
                lm_Labels = [Key LabelResourceID \<mapsto>
                  (if pd_Device p = '''' then Sprintf_d_colon_d (Major p) (Minor p)
                   else pd_Device p)]\<rparr>)
       (IoServiceBytes (DiskIo stat))"
  unfolding MetricDiskIOWrite_GetLabeledMetric_def Let_def fold_append_map by simp

lemma accelerator_lengths:
  "length (MetricAcceleratorMemoryTotal_GetLabeledMetric info stat) = length (Accelerators stat)"
  "length (MetricAcceleratorMemoryUsed_GetLabeledMetric info stat) = length (Accelerators stat)"
  "length (MetricAcceleratorDutyCycle_GetLabeledMetric info stat) = length (Accelerators stat)"
  unfolding MetricAcceleratorMemoryTotal_GetLabeledMetric_def
    MetricAcceleratorMemoryUsed_GetLabeledMetric_def
    MetricAcceleratorDutyCycle_GetLabeledMetric_def fold_append_map
  by simp_all

lemma call_GetLabeledMetric_eqs:
  "call_GetLabeledMetric MetricFilesystemUsage c stat
     = Some (MetricFilesystemUsage_GetLabeledMetric c stat)"
  "call_GetLabeledMetric MetricFilesystemLimit c stat
     = Some (MetricFilesystemLimit_GetLabeledMetric c stat)"
  "call_GetLabeledMetric MetricFilesystemInodes c stat
     = Some (MetricFilesystemInodes_GetLabeledMetric c stat)"
  "call_GetLabeledMetric MetricFilesystemInodesFree c stat
     = Some (MetricFilesystemInodesFree_GetLabeledMetric c stat)"
  "call_GetLabeledMetric MetricDiskIORead c stat
     = Some (MetricDiskIORead_GetLabeledMetric c stat)"
  "call_GetLabeledMetric MetricDiskIOWrite c stat
     = Some (MetricDiskIOWrite_GetLabeledMetric c stat)"
  "call_GetLabeledMetric MetricAcceleratorMemoryTotal c stat
     = Some (MetricAcceleratorMemoryTotal_GetLabeledMetric c stat)"
  "call_GetLabeledMetric MetricAcceleratorMemoryUsed c stat
     = Some (MetricAcceleratorMemoryUsed_GetLabeledMetric c stat)"
  "call_GetLabeledMetric MetricAcceleratorDutyCycle c stat
     = Some (MetricAcceleratorDutyCycle_GetLabeledMetric c stat)"
  by (simp_all add: call_GetLabeledMetric_def MetricFilesystemUsage_def
      MetricFilesystemLimit_def MetricFilesystemInodes_def MetricFilesystemInodesFree_def
      MetricDiskIORead_def MetricDiskIOWrite_def MetricAcceleratorMemoryTotal_def
      MetricAcceleratorMemoryUsed_def MetricAcceleratorDutyCycle_def)

text \<open>
  Claim C5. For every sample, each labeled extractor returns (it does not fail) as many
  results as the sample has qualifying records: filesystem/inodes and
  filesystem/inodes_free one per filesystem record with \<^verbatim>\<open>HasInodes\<close> set, skipping the
  others; filesystem/usage and filesystem/limit one per filesystem record; the disk
  metrics one per partition record; the accelerator metrics one per accelerator. With no
  qualifying record the result is the empty list.
\<close>

theorem labeled_cardinality:
  "map_option length (call_GetLabeledMetric MetricFilesystemInodes c stat)
     = Some (length (filter HasInodes (Filesystem stat))) \<and>
   map_option length (call_GetLabeledMetric MetricFilesystemInodesFree c stat)
     = Some (length (filter HasInodes (Filesystem stat))) \<and>
   (call_GetLabeledMetric MetricFilesystemInodes c stat = Some [])
     = (filter HasInodes (Filesystem stat) = []) \<and>
   (call_GetLabeledMetric MetricFilesystemInodesFree c stat = Some [])
     = (filter HasInodes (Filesystem stat) = []) \<and>
   map_option length (call_GetLabeledMetric MetricFilesystemUsage c stat)
     = Some (length (Filesystem stat)) \<and>
   map_option length (call_GetLabeledMetric MetricFilesystemLimit c stat)
     = Some (length (Filesystem stat)) \<and>
   map_option length (call_GetLabeledMetric MetricDiskIORead c stat)
     = Some (length (IoServiceBytes (DiskIo stat))) \<and>
   map_option length (call_GetLabeledMetric MetricDiskIOWrite c stat)
     = Some (length (IoServiceBytes (DiskIo stat))) \<and>
   map_option length (call_GetLabeledMetric MetricAcceleratorMemoryTotal c stat)
     = Some (length (Accelerators stat)) \<and>
   map_option length (call_GetLabeledMetric MetricAcceleratorMemoryUsed c stat)
     = Some (length (Accelerators stat)) \<and>
   map_option length (call_GetLabeledMetric MetricAcceleratorDutyCycle c stat)
     = Some (length (Accelerators stat))"
  unfolding call_GetLabeledMetric_eqs
  by (simp add: MetricFilesystemInodes_GetLabeledMetric_map
      MetricFilesystemInodesFree_GetLabeledMetric_map
      MetricFilesystemUsage_GetLabeledMetric_map MetricFilesystemLimit_GetLabeledMetric_map
      MetricDiskIORead_GetLabeledMetric_map MetricDiskIOWrite_GetLabeledMetric_map
      accelerator_lengths)

lemma labeled_example:
  "map IntValue (MetricFilesystemInodes_GetLabeledMetric example_container example_stats)
     = [64, 128]"
  "map IntValue (MetricFilesystemInodesFree_GetLabeledMetric example_container example_stats)
     = [32, 100]"
  "map IntValue (MetricFilesystemUsage_GetLabeledMetric example_container example_stats)
     = [400, 1, 5]"
  "map IntValue (MetricDiskIORead_GetLabeledMetric example_container example_stats)
     = [0, 10, 7]"
  "map IntValue (MetricDiskIOWrite_GetLabeledMetric example_container example_stats)
     = [500, 20, 0]"
  by (simp_all add: MetricFilesystemInodes_GetLabeledMetric_map
      MetricFilesystemInodesFree_GetLabeledMetric_map
      MetricFilesystemUsage_GetLabeledMetric_map MetricDiskIORead_GetLabeledMetric_map
      MetricDiskIOWrite_GetLabeledMetric_map example_stats_def)

text \<open>
  Claim C6. For every partition record, disk/io_read_bytes takes the value the record's
  operation map holds under \<^verbatim>\<open>Read\<close> and disk/io_write_bytes the one under
  \<^verbatim>\<open>Write\<close>, and 0 where the key is missing; the extractor returns in either case.
  For a single record whose map holds only \<^verbatim>\<open>Write\<close>: 500 the read value is 0 and the
  write value 500.
\<close>

theorem disk_io_demultiplex:
  "map_option (map IntValue) (call_GetLabeledMetric MetricDiskIORead info stat)
     = Some (map (\<lambda>p. case Stats p ''Read'' of Some v \<Rightarrow> v | None \<Rightarrow> 0)
               (IoServiceBytes (DiskIo stat))) \<and>
   map_option (map IntValue) (call_GetLabeledMetric MetricDiskIOWrite info stat)
     = Some (map (\<lambda>p. case Stats p ''Write'' of Some v \<Rightarrow> v | None \<Rightarrow> 0)
               (IoServiceBytes (DiskIo stat))) \<and>
   map_option (map IntValue) (call_GetLabeledMetric MetricDiskIORead info
       (stat\<lparr>DiskIo := \<lparr>IoServiceBytes = [p\<lparr>Stats := [''Write'' \<mapsto> 500]\<rparr>]\<rparr>\<rparr>))
     = Some [0] \<and>
   map_option (map IntValue) (call_GetLabeledMetric MetricDiskIOWrite info
       (stat\<lparr>DiskIo := \<lparr>IoServiceBytes = [p\<lparr>Stats := [''Write'' \<mapsto> 500]\<rparr>]\<rparr>\<rparr>))
     = Some [500]"
  unfolding call_GetLabeledMetric_eqs
  by (simp add: MetricDiskIORead_GetLabeledMetric_map MetricDiskIOWrite_GetLabeledMetric_map
      comp_def)

subsection \<open>The formatting routine writes decimal numerals\<close>

lemma below_ten:
  "d < 10 \<Longrightarrow> d \<in> {0, 1, 2, 3, 4, 5, 6, 7, 8, 9 :: nat}"
  by auto

lemma digit_is_digit: "d < 10 \<Longrightarrow> is_digit (digit d)"
  by (drule below_ten) (auto simp add: digit_def is_digit_def)

lemma digit_value_digit: "d < 10 \<Longrightarrow> digit_value (digit d) = d"
  by (drule below_ten) (auto simp add: digit_def digit_value_def)

lemma digit_zero_iff: "d < 10 \<Longrightarrow> digit d = CHR ''0'' \<longleftrightarrow> d = 0"
  by (drule below_ten) (auto simp add: digit_def)

lemma is_digit_value:
  assumes "is_digit ch"
  shows "digit_value ch < 10" and "digit (digit_value ch) = ch"
    and "ch \<noteq> CHR ''0'' \<Longrightarrow> 0 < digit_value ch"
  using assms by (auto simp add: is_digit_def digit_value_def digit_def)

lemma decimal_digit: "n < 10 \<Longrightarrow> decimal n = [digit n]"
  by (simp add: decimal.simps)

lemma decimal_step:
  "\<not> n < 10 \<Longrightarrow> decimal n = decimal (n div 10) @ [digit (n mod 10)]"
  by (subst decimal.simps) simp

lemma numeral_value_snoc:
  "numeral_value (s @ [ch]) = 10 * numeral_value s + digit_value ch"
  by (simp add: numeral_value_def)

lemma numeral_value_single: "numeral_value [ch] = digit_value ch"
  by (simp add: numeral_value_def)

text \<open>The value of what the routine writes is the number it was given.\<close>

lemma decimal_value: "numeral_value (decimal n) = n"
proof (induction n rule: decimal.induct)
  case (1 n)
  show ?case
  proof (cases "n < 10")
    case True
    then show ?thesis
      by (simp add: decimal_digit numeral_value_single digit_value_digit)
  next
    case False
    with "1" have "numeral_value (decimal (n div 10)) = n div 10" by simp
    with False show ?thesis
      by (simp add: decimal_step numeral_value_snoc digit_value_digit)
  qed
qed

lemma decimal_shape:
  "decimal n \<noteq> [] \<and> list_all is_digit (decimal n) \<and>
   (0 < n \<longrightarrow> hd (decimal n) \<noteq> CHR ''0'')"
proof (induction n rule: decimal.induct)
  case (1 n)
  show ?case
  proof (cases "n < 10")
    case True
    then show ?thesis
      by (simp add: decimal_digit digit_is_digit digit_zero_iff)
  next
    case False
    then have "0 < n div 10" by simp
    with "1" False have "decimal (n div 10) \<noteq> []"
      and "list_all is_digit (decimal (n div 10))"
      and "hd (decimal (n div 10)) \<noteq> CHR ''0''"
      by simp_all
    with False show ?thesis
      by (simp add: decimal_step digit_is_digit)
  qed
qed

lemma is_numeral_iff:
  "is_numeral s \<longleftrightarrow>
     s \<noteq> [] \<and> list_all is_digit s \<and> (s = ''0'' \<or> hd s \<noteq> CHR ''0'')"
  by (cases s rule: is_numeral.cases) auto

text \<open>What the routine writes is a numeral: digits only, no leading zero.\<close>

lemma decimal_is_numeral: "is_numeral (decimal n)"
proof (cases "n = 0")
  case True
  then show ?thesis by (simp add: decimal_digit digit_def is_digit_def)
next
  case False
  with decimal_shape [of n] show ?thesis by (simp add: is_numeral_iff)
qed

lemma numeral_value_mono: "v \<le> foldl (\<lambda>v ch. 10 * v + digit_value ch) v s"
proof (induction s arbitrary: v)
  case Nil
  show ?case by simp
next
  case (Cons ch s)
  have "v \<le> 10 * v + digit_value ch" by simp
  also have "\<dots> \<le> foldl (\<lambda>v ch. 10 * v + digit_value ch) (10 * v + digit_value ch) s"
    by (rule Cons.IH)
  finally show ?case by simp
qed

lemma numeral_value_positive:
  assumes "s \<noteq> []" and "list_all is_digit s" and "hd s \<noteq> CHR ''0''"
  shows "0 < numeral_value s"
proof (cases s)
  case Nil
  with assms show ?thesis by simp
next
  case (Cons ch rest)
  with assms have "0 < digit_value ch" by (simp add: is_digit_value)
  also have "digit_value ch \<le> numeral_value s"
    using numeral_value_mono [of "digit_value ch" rest] Cons
    by (simp add: numeral_value_def)
  finally show ?thesis .
qed

text \<open>
  A numeral is what the routine writes for its value, so two numerals with the same value
  are the same string: shape and value fix the output of the routine.
\<close>

lemma numeral_is_decimal: "is_numeral s \<Longrightarrow> decimal (numeral_value s) = s"
proof (induction s rule: rev_induct)
  case Nil
  then show ?case by simp
next
  case (snoc ch s)
  from snoc.prems have digits: "list_all is_digit s" and last: "is_digit ch"
    by (simp_all add: is_numeral_iff)
  show ?case
  proof (cases "s = []")
    case True
    with last show ?thesis
      by (simp add: numeral_value_single decimal_digit is_digit_value)
  next
    case False
    with snoc.prems have head: "hd s \<noteq> CHR ''0''"
      by (auto simp add: is_numeral_iff)
    with False digits have "is_numeral s" by (simp add: is_numeral_iff)
    then have IH: "decimal (numeral_value s) = s" by (rule snoc.IH)
    from False digits head have "0 < numeral_value s" by (rule numeral_value_positive)
    moreover from last have "digit_value ch < 10" by (rule is_digit_value)
    ultimately have "\<not> 10 * numeral_value s + digit_value ch < 10"
      and "(10 * numeral_value s + digit_value ch) div 10 = numeral_value s"
      and "(10 * numeral_value s + digit_value ch) mod 10 = digit_value ch"
      by simp_all
    with IH last show ?thesis
      by (simp add: numeral_value_snoc decimal_step is_digit_value)
  qed
qed

lemma numeral_unique:
  assumes "is_numeral s" and "is_numeral t" and "numeral_value s = numeral_value t"
  shows "s = t"
proof -
  have "s = decimal (numeral_value s)"
    using assms(1) by (rule numeral_is_decimal [symmetric])
  also have "\<dots> = decimal (numeral_value t)"
    by (simp only: assms(3))
  also have "\<dots> = t"
    using assms(2) by (rule numeral_is_decimal)
  finally show ?thesis .
qed

lemma Sprintf_d_colon_d_examples:
  "Sprintf_d_colon_d 0 10 = ''0:10''"
  "Sprintf_d_colon_d 259 10 = ''259:10''"
  "Sprintf_d_colon_d 8 18446744073709551615 = ''8:18446744073709551615''"
  by (simp_all add: Sprintf_d_colon_d_def decimal.simps digit_def)

text \<open>
  Claim C9. For a partition record whose device name is empty, the \<^verbatim>\<open>resource_id\<close> label
  of the value emitted for it, by disk/io_read_bytes and by disk/io_write_bytes, is a
  decimal numeral whose value is the major number of the record, a colon, and a decimal
  numeral whose value is the minor number. The two numerals exist for every major and
  minor number: the formatting has no failing case.
\<close>

theorem disk_fallback_key:
  assumes "i < length (IoServiceBytes (DiskIo stat))"
    and "pd_Device (IoServiceBytes (DiskIo stat) ! i) = ''''"
  shows "\<exists>major minor.
           is_numeral major \<and>
           numeral_value major = unat (Major (IoServiceBytes (DiskIo stat) ! i)) \<and>
           is_numeral minor \<and>
           numeral_value minor = unat (Minor (IoServiceBytes (DiskIo stat) ! i)) \<and>
           lm_Labels (MetricDiskIORead_GetLabeledMetric info stat ! i) ''resource_id''
             = Some (major @ '':'' @ minor) \<and>
           lm_Labels (MetricDiskIOWrite_GetLabeledMetric info stat ! i) ''resource_id''
             = Some (major @ '':'' @ minor)"
proof (intro exI conjI)
  show "is_numeral (decimal (unat (Major (IoServiceBytes (DiskIo stat) ! i))))"
    and "is_numeral (decimal (unat (Minor (IoServiceBytes (DiskIo stat) ! i))))"
    by (rule decimal_is_numeral)+
  show "numeral_value (decimal (unat (Major (IoServiceBytes (DiskIo stat) ! i))))
          = unat (Major (IoServiceBytes (DiskIo stat) ! i))"
    and "numeral_value (decimal (unat (Minor (IoServiceBytes (DiskIo stat) ! i))))
          = unat (Minor (IoServiceBytes (DiskIo stat) ! i))"
    by (rule decimal_value)+
  show "lm_Labels (MetricDiskIORead_GetLabeledMetric info stat ! i) ''resource_id''
          = Some (decimal (unat (Major (IoServiceBytes (DiskIo stat) ! i))) @ '':'' @
                  decimal (unat (Minor (IoServiceBytes (DiskIo stat) ! i))))"
    using assms
    by (simp add: MetricDiskIORead_GetLabeledMetric_map LabelResourceID_def
        Sprintf_d_colon_d_def)
  show "lm_Labels (MetricDiskIOWrite_GetLabeledMetric info stat ! i) ''resource_id''
          = Some (decimal (unat (Major (IoServiceBytes (DiskIo stat) ! i))) @ '':'' @
                  decimal (unat (Minor (IoServiceBytes (DiskIo stat) ! i))))"
    using assms
    by (simp add: MetricDiskIOWrite_GetLabeledMetric_map LabelResourceID_def
        Sprintf_d_colon_d_def)
qed

text \<open>
  The first partition record of the sample has an empty device name, major 8 and minor 1,
  the third an empty device name, major 259 and minor 10. The numerals of the theorem can
  only be \<^verbatim>\<open>8\<close> and \<^verbatim>\<open>1\<close>, and \<^verbatim>\<open>259\<close> and \<^verbatim>\<open>10\<close>: the labels are \<^verbatim>\<open>8:1\<close> and
  \<^verbatim>\<open>259:10\<close>.
\<close>

theorem disk_fallback_key_witness:
  "0 < length (IoServiceBytes (DiskIo example_stats)) \<and>
   pd_Device (IoServiceBytes (DiskIo example_stats) ! 0) = '''' \<and>
   Major (IoServiceBytes (DiskIo example_stats) ! 0) = 8 \<and>
   Minor (IoServiceBytes (DiskIo example_stats) ! 0) = 1 \<and>
   lm_Labels (MetricDiskIORead_GetLabeledMetric example_container example_stats ! 0)
     ''resource_id'' = Some ''8:1'' \<and>
   lm_Labels (MetricDiskIOWrite_GetLabeledMetric example_container example_stats ! 0)
     ''resource_id'' = Some ''8:1'' \<and>
   2 < length (IoServiceBytes (DiskIo example_stats)) \<and>
   pd_Device (IoServiceBytes (DiskIo example_stats) ! 2) = '''' \<and>
   Major (IoServiceBytes (DiskIo example_stats) ! 2) = 259 \<and>
   Minor (IoServiceBytes (DiskIo example_stats) ! 2) = 10 \<and>
   lm_Labels (MetricDiskIORead_GetLabeledMetric example_container example_stats ! 2)
     ''resource_id'' = Some ''259:10'' \<and>
   lm_Labels (MetricDiskIOWrite_GetLabeledMetric example_container example_stats ! 2)
     ''resource_id'' = Some ''259:10''"
proof -
  have len0: "0 < length (IoServiceBytes (DiskIo example_stats))"
    and dev0: "pd_Device (IoServiceBytes (DiskIo example_stats) ! 0) = ''''"
    and major0: "Major (IoServiceBytes (DiskIo example_stats) ! 0) = 8"
    and minor0: "Minor (IoServiceBytes (DiskIo example_stats) ! 0) = 1"
    and len2: "2 < length (IoServiceBytes (DiskIo example_stats))"
    and dev2: "pd_Device (IoServiceBytes (DiskIo example_stats) ! 2) = ''''"
    and major2: "Major (IoServiceBytes (DiskIo example_stats) ! 2) = 259"
    and minor2: "Minor (IoServiceBytes (DiskIo example_stats) ! 2) = 10"
    by (simp_all add: example_stats_def)
  have numerals: "is_numeral ''8''" "numeral_value ''8'' = 8"
    "is_numeral ''1''" "numeral_value ''1'' = 1"
    "is_numeral ''259''" "numeral_value ''259'' = 259"
    "is_numeral ''10''" "numeral_value ''10'' = 10"
    by (simp_all add: is_digit_def numeral_value_def digit_value_def)
  have only: "s = t" if "is_numeral s" and "numeral_value s = n"
    and "is_numeral t" and "numeral_value t = n" for s t n
    using that by (intro numeral_unique) simp_all
  from disk_fallback_key [OF len0 dev0, of example_container]
  obtain a b where "is_numeral a" and "numeral_value a = 8"
    and "is_numeral b" and "numeral_value b = 1"
    and read0: "lm_Labels (MetricDiskIORead_GetLabeledMetric example_container
                  example_stats ! 0) ''resource_id'' = Some (a @ '':'' @ b)"
    and write0: "lm_Labels (MetricDiskIOWrite_GetLabeledMetric example_container
                  example_stats ! 0) ''resource_id'' = Some (a @ '':'' @ b)"
    unfolding major0 minor0 by auto
  then have a: "a = ''8''" and b: "b = ''1''"
    using numerals by (auto intro: only)
  from disk_fallback_key [OF len2 dev2, of example_container]
  obtain c d where "is_numeral c" and "numeral_value c = 259"
    and "is_numeral d" and "numeral_value d = 10"
    and read2: "lm_Labels (MetricDiskIORead_GetLabeledMetric example_container
                  example_stats ! 2) ''resource_id'' = Some (c @ '':'' @ d)"
    and write2: "lm_Labels (MetricDiskIOWrite_GetLabeledMetric example_container
                  example_stats ! 2) ''resource_id'' = Some (c @ '':'' @ d)"
    unfolding major2 minor2 by auto
  then have c: "c = ''259''" and d: "d = ''10''"
    using numerals by (auto intro: only)
  show ?thesis
    using len0 dev0 major0 minor0 len2 dev2 major2 minor2 read0 write0 read2 write2
    unfolding a b c d by simp
qed

text \<open>
  Claim C10. Every value emitted by the extractors of disk/io_read_bytes and
  disk/io_write_bytes has metric type \<^verbatim>\<open>MetricGauge\<close>, while the descriptors of the two
  metrics declare \<^verbatim>\<open>MetricCumulative\<close>: the type of the emitted value is not the type of
  the descriptor.
\<close>

theorem disk_io_value_kind:
  "map_option (map MetricType) (call_GetLabeledMetric MetricDiskIORead info stat)
     = Some (replicate (length (IoServiceBytes (DiskIo stat))) MetricGauge) \<and>
   map_option (map MetricType) (call_GetLabeledMetric MetricDiskIOWrite info stat)
     = Some (replicate (length (IoServiceBytes (DiskIo stat))) MetricGauge) \<and>
   Type MetricDiskIORead = MetricCumulative \<and>
   Type MetricDiskIOWrite = MetricCumulative \<and>
   MetricGauge \<noteq> MetricCumulative"
proof -
  have const: "map (\<lambda>x. c) xs = replicate (length xs) c" for c :: MetricType and xs :: "'a list"
    by (induction xs) simp_all
  show ?thesis
    unfolding call_GetLabeledMetric_eqs
    by (simp add: MetricDiskIORead_GetLabeledMetric_map MetricDiskIOWrite_GetLabeledMetric_map
        comp_def const MetricDiskIORead_def MetricDiskIOWrite_def)
qed

subsection \<open>What the results depend on\<close>

lemma call_GetValue_no_clock:
  assumes "GetValue m = None \<or> (\<exists>g. GetValue m = Some (\<lambda>now. g))"
  shows "call_GetValue m now1 c stat = call_GetValue m now2 c stat"
  using assms by (auto simp add: call_GetValue_def)

lemma StandardMetrics_GetValue:
  assumes "m \<in> set StandardMetrics"
  shows "m = MetricUptime \<or> GetValue m = None \<or> (\<exists>g. GetValue m = Some (\<lambda>now. g))"
proof -
  have "m = MetricUptime \<or> m \<in> set [MetricCpuUsage, MetricMemoryUsage, MetricMemoryCache,
      MetricMemoryRSS, MetricMemoryWorkingSet, MetricMemoryPageFaults,
      MetricMemoryMajorPageFaults, MetricNetworkRx, MetricNetworkRxErrors, MetricNetworkTx,
      MetricNetworkTxErrors]"
    using assms by (auto simp add: StandardMetrics_def)
  moreover have "\<exists>g. GetValue MetricCpuUsage = Some (\<lambda>now. g)"
    "\<exists>g. GetValue MetricMemoryUsage = Some (\<lambda>now. g)"
    "\<exists>g. GetValue MetricMemoryCache = Some (\<lambda>now. g)"
    "\<exists>g. GetValue MetricMemoryRSS = Some (\<lambda>now. g)"
    "\<exists>g. GetValue MetricMemoryWorkingSet = Some (\<lambda>now. g)"
    "\<exists>g. GetValue MetricMemoryPageFaults = Some (\<lambda>now. g)"
    "\<exists>g. GetValue MetricMemoryMajorPageFaults = Some (\<lambda>now. g)"
    "\<exists>g. GetValue MetricNetworkRx = Some (\<lambda>now. g)"
    "\<exists>g. GetValue MetricNetworkRxErrors = Some (\<lambda>now. g)"
    "\<exists>g. GetValue MetricNetworkTx = Some (\<lambda>now. g)"
    "\<exists>g. GetValue MetricNetworkTxErrors = Some (\<lambda>now. g)"
    by (simp_all add: gated_defs) blast+
  ultimately show ?thesis by auto
qed

lemma other_GetValue:
  assumes "m \<in> set (AdditionalMetrics @ RateMetrics @ LabeledMetrics @ NodeAutoscalingMetrics)"
  shows "GetValue m = None"
proof -
  have none: "\<forall>x \<in> set [MetricCpuRequest, MetricCpuLimit, MetricMemoryRequest,
      MetricMemoryLimit, MetricCpuUsageRate, MetricNetworkRxRate, MetricNetworkTxRate,
      MetricDiskIOReadRate, MetricDiskIOWriteRate, MetricDiskIORead, MetricDiskIOWrite,
      MetricFilesystemUsage, MetricFilesystemLimit, MetricFilesystemAvailable,
      MetricFilesystemInodes, MetricFilesystemInodesFree, MetricAcceleratorMemoryTotal,
      MetricAcceleratorMemoryUsed, MetricAcceleratorDutyCycle, MetricNodeCpuCapacity,
      MetricNodeMemoryCapacity, MetricNodeCpuAllocatable, MetricNodeMemoryAllocatable,
      MetricNodeCpuUtilization, MetricNodeMemoryUtilization, MetricNodeCpuReservation,
      MetricNodeMemoryReservation]. GetValue x = None"
    by (simp add: MetricCpuRequest_def MetricCpuLimit_def MetricMemoryRequest_def
        MetricMemoryLimit_def MetricCpuUsageRate_def MetricNetworkRxRate_def
        MetricNetworkTxRate_def MetricDiskIOReadRate_def MetricDiskIOWriteRate_def
        MetricDiskIORead_def MetricDiskIOWrite_def MetricFilesystemUsage_def
        MetricFilesystemLimit_def MetricFilesystemAvailable_def MetricFilesystemInodes_def
        MetricFilesystemInodesFree_def MetricAcceleratorMemoryTotal_def
        MetricAcceleratorMemoryUsed_def MetricAcceleratorDutyCycle_def
        MetricNodeCpuCapacity_def MetricNodeMemoryCapacity_def MetricNodeCpuAllocatable_def
        MetricNodeMemoryAllocatable_def MetricNodeCpuUtilization_def
        MetricNodeMemoryUtilization_def MetricNodeCpuReservation_def
        MetricNodeMemoryReservation_def)
  have "m \<in> set [MetricCpuRequest, MetricCpuLimit, MetricMemoryRequest,
      MetricMemoryLimit, MetricCpuUsageRate, MetricNetworkRxRate, MetricNetworkTxRate,
      MetricDiskIOReadRate, MetricDiskIOWriteRate, MetricDiskIORead, MetricDiskIOWrite,
      MetricFilesystemUsage, MetricFilesystemLimit, MetricFilesystemAvailable,
      MetricFilesystemInodes, MetricFilesystemInodesFree, MetricAcceleratorMemoryTotal,
      MetricAcceleratorMemoryUsed, MetricAcceleratorDutyCycle, MetricNodeCpuCapacity,
      MetricNodeMemoryCapacity, MetricNodeCpuAllocatable, MetricNodeMemoryAllocatable,
      MetricNodeCpuUtilization, MetricNodeMemoryUtilization, MetricNodeCpuReservation,
      MetricNodeMemoryReservation]"
    using assms
    by (auto simp add: AdditionalMetrics_def RateMetrics_def LabeledMetrics_def
        NodeAutoscalingMetrics_def)
  with none show ?thesis by blast
qed

lemma family_order_irrelevant:
  assumes "range_order o1 MetricFamilies" and "range_order o2 MetricFamilies"
  shows "MetricFamilyForName o1 n = MetricFamilyForName o2 n"
proof (cases "n \<in> set (map Name
    (CpuMetrics @ FilesystemMetrics @ MemoryMetrics @ NetworkMetrics))")
  case True
  then obtain fam ms where "MetricFamilies fam = Some ms" and "n \<in> set (map Name ms)"
    unfolding MetricFamilies_Some by auto
  then show ?thesis
    using assms by (simp add: family_of_name [where ms = ms])
next
  case False
  then show ?thesis
    by (simp add: family_general)
qed

lemma MetricUptime_call:
  "call_GetValue MetricUptime now c stat = Some (MetricUptime_GetValue now c stat)"
  by (simp add: call_GetValue_def MetricUptime_def)

lemma IsNodeAutoscalingMetric_range_iff:
  "IsNodeAutoscalingMetric_range ms name \<longleftrightarrow> name \<in> set (map Name ms)"
  by (induction ms) auto

lemma IsNodeAutoscalingMetric_iff:
  "IsNodeAutoscalingMetric name \<longleftrightarrow> name \<in> set (map Name NodeAutoscalingMetrics)"
  by (simp only: IsNodeAutoscalingMetric_def IsNodeAutoscalingMetric_range_iff)

lemma sdiv_nonneg:
  fixes k l :: int
  assumes "0 \<le> k" and "0 < l"
  shows "k sdiv l = k div l"
  using assms by (cases "k = 0") (simp_all add: signed_divide_int_def)

lemma time_Sub_in_range:
  assumes "u \<le> t" and "t - u \<le> maxDuration"
  shows "time_Sub t u = t - u"
  using assms by (simp add: time_Sub_def minDuration_def Let_def)

lemma sint_milliseconds:
  fixes d :: int
  assumes "0 \<le> d" and "d \<le> maxDuration"
  shows "sint (word_of_int (d div 1000000) :: int64) = d div 1000000"
proof -
  have "0 \<le> d div 1000000" using assms(1) by simp
  moreover have "d div 1000000 \<le> d div 1"
    using assms(1) by (intro zdiv_mono2) simp_all
  ultimately have "- (2 ^ 63) \<le> d div 1000000" and "d div 1000000 < 2 ^ 63"
    using assms(2) by (simp_all add: maxDuration_def)
  then show ?thesis
    by (simp add: signed_of_int signed_take_bit_int_eq_self)
qed

text \<open>
  While the creation time is not in the future and not more than the largest Duration
  (about 292 years) back, uptime is the number of whole milliseconds between the creation
  time and the clock reading.
\<close>

lemma uptime_value:
  assumes "CreationTime (Spec c) \<le> now" and "now - CreationTime (Spec c) \<le> maxDuration"
  shows "call_GetValue MetricUptime now c stat =
           Some \<lparr>IntValue = word_of_int ((now - CreationTime (Spec c)) div 1000000),
                 FloatValue = 0, MetricType = MetricCumulative, mv_ValueType = ValueInt64\<rparr>"
  using assms
  by (simp add: MetricUptime_call MetricUptime_GetValue_def time_Since_def
      time_Sub_in_range time_Millisecond_def sdiv_nonneg)

lemma uptime_differs:
  assumes "CreationTime (Spec c) \<le> now1" and "now1 + 1000000 \<le> now2"
    and "now2 - CreationTime (Spec c) \<le> maxDuration"
  shows "call_GetValue MetricUptime now1 c stat \<noteq> call_GetValue MetricUptime now2 c stat"
proof
  let ?t = "CreationTime (Spec c)"
  assume same: "call_GetValue MetricUptime now1 c stat = call_GetValue MetricUptime now2 c stat"
  have "call_GetValue MetricUptime now1 c stat =
      Some \<lparr>IntValue = word_of_int ((now1 - ?t) div 1000000),
            FloatValue = 0, MetricType = MetricCumulative, mv_ValueType = ValueInt64\<rparr>"
    using assms by (intro uptime_value) simp_all
  moreover have "call_GetValue MetricUptime now2 c stat =
      Some \<lparr>IntValue = word_of_int ((now2 - ?t) div 1000000),
            FloatValue = 0, MetricType = MetricCumulative, mv_ValueType = ValueInt64\<rparr>"
    using assms by (intro uptime_value) simp_all
  ultimately have "(word_of_int ((now1 - ?t) div 1000000) :: int64)
      = word_of_int ((now2 - ?t) div 1000000)"
    using same by simp
  then have "sint (word_of_int ((now1 - ?t) div 1000000) :: int64)
      = sint (word_of_int ((now2 - ?t) div 1000000) :: int64)"
    by simp
  then have "(now1 - ?t) div 1000000 = (now2 - ?t) div 1000000"
    using assms by (simp add: sint_milliseconds)
  moreover have "(now1 - ?t) div 1000000 + 1 = (now1 - ?t + 1000000) div 1000000"
    by simp
  moreover have "(now1 - ?t + 1000000) div 1000000 \<le> (now2 - ?t) div 1000000"
    using assms(2) by (intro zdiv_mono1) simp_all
  ultimately show False by simp
qed

text \<open>
  Claim C4, as stated: every extraction and lookup is a function of entity, sample and
  name alone, with no dependence on the clock. \<^verbatim>\<open>GetValue\<close> of uptime, a metric of
  \<^verbatim>\<open>AllMetrics\<close>, is not: for the same container, created on 2017-01-01, and the same
  sample it returns 3600000 when the clock reads one hour after the creation and 3600003
  when it reads 3 ms more.
\<close>

theorem uptime_clock_counterexample:
  "on_registered_metric (GetValue_of MetricUptime example_container example_stats) \<and>
   possible_world example_world \<and> possible_world example_world_later \<and>
   invoke example_world (GetValue_of MetricUptime example_container example_stats)
     = Value (Some \<lparr>IntValue = 3600000, FloatValue = 0, MetricType = MetricCumulative,
                     mv_ValueType = ValueInt64\<rparr>) \<and>
   invoke example_world_later (GetValue_of MetricUptime example_container example_stats)
     = Value (Some \<lparr>IntValue = 3600003, FloatValue = 0, MetricType = MetricCumulative,
                     mv_ValueType = ValueInt64\<rparr>) \<and>
   invoke example_world (GetValue_of MetricUptime example_container example_stats)
     \<noteq> invoke example_world_later
         (GetValue_of MetricUptime example_container example_stats)"
proof -
  have "on_registered_metric (GetValue_of MetricUptime example_container example_stats)"
    by (simp add: AllMetrics_def StandardMetrics_def)
  moreover have "possible_world example_world" and "possible_world example_world_later"
    unfolding possible_world_def range_order_def dom_MetricFamilies
    by (auto simp add: example_world_def example_world_later_def family_consts)
  moreover have
    "invoke example_world (GetValue_of MetricUptime example_container example_stats)
       = Value (Some \<lparr>IntValue = 3600000, FloatValue = 0, MetricType = MetricCumulative,
                       mv_ValueType = ValueInt64\<rparr>)"
    "invoke example_world_later (GetValue_of MetricUptime example_container example_stats)
       = Value (Some \<lparr>IntValue = 3600003, FloatValue = 0, MetricType = MetricCumulative,
                       mv_ValueType = ValueInt64\<rparr>)"
    by (simp_all add: MetricUptime_call MetricUptime_GetValue_def time_Since_def
        time_Sub_def minDuration_def maxDuration_def time_Millisecond_def
        signed_divide_int_def example_world_def example_world_later_def
        example_container_def example_spec_def)
  ultimately show ?thesis by simp
qed

lemma invoke_same:
  assumes worlds: "possible_world wa" "possible_world wb"
    and registered: "on_registered_metric op" and other: "\<not> is_uptime_GetValue op"
  shows "invoke wa op = invoke wb op"
proof (cases op)
  case (GetValue_of m c' stat')
  with registered other have member: "m \<in> set AllMetrics"
    and name: "Name m \<noteq> ''uptime''"
    by simp_all
  from member have "m \<in> set StandardMetrics \<or>
      m \<in> set (AdditionalMetrics @ RateMetrics @ LabeledMetrics @ NodeAutoscalingMetrics)"
    by (auto simp add: AllMetrics_def)
  moreover from name have "m \<noteq> MetricUptime"
    by (auto simp add: MetricUptime_def)
  ultimately have "GetValue m = None \<or> (\<exists>g. GetValue m = Some (\<lambda>now. g))"
    using StandardMetrics_GetValue [of m] other_GetValue [of m] by blast
  then have "call_GetValue m (clock wa) c' stat' = call_GetValue m (clock wb) c' stat'"
    by (rule call_GetValue_no_clock)
  then show ?thesis
    unfolding GetValue_of by (simp only: invoke.simps)
next
  case (GetLabeledMetric_of m c' stat')
  show ?thesis
    unfolding GetLabeledMetric_of by (simp only: invoke.simps)
next
  case (MetricFamilyForName_of metricName)
  from worlds have "MetricFamilyForName (family_range wa) metricName
      = MetricFamilyForName (family_range wb) metricName"
    unfolding possible_world_def by (rule family_order_irrelevant)
  then show ?thesis
    unfolding MetricFamilyForName_of by (simp only: invoke.simps)
next
  case (IsNodeAutoscalingMetric_of n)
  show ?thesis
    unfolding IsNodeAutoscalingMetric_of by (simp only: invoke.simps)
next
  case (RateMetricsMapping_of n)
  show ?thesis
    unfolding RateMetricsMapping_of by (simp only: invoke.simps)
qed

lemma invoke_uptime:
  assumes "CreationTime (Spec c) \<le> clock w"
    and "clock w - CreationTime (Spec c) \<le> maxDuration"
  shows "invoke w (GetValue_of MetricUptime c stat)
        = Value (Some \<lparr>IntValue = word_of_int ((clock w - CreationTime (Spec c)) div 1000000),
                        FloatValue = 0, MetricType = MetricCumulative,
                        mv_ValueType = ValueInt64\<rparr>) \<and>
      sint (word_of_int ((clock w - CreationTime (Spec c)) div 1000000) :: int64)
        = (clock w - CreationTime (Spec c)) div 1000000"
proof
  show "invoke w (GetValue_of MetricUptime c stat)
        = Value (Some \<lparr>IntValue = word_of_int ((clock w - CreationTime (Spec c)) div 1000000),
                        FloatValue = 0, MetricType = MetricCumulative,
                        mv_ValueType = ValueInt64\<rparr>)"
    unfolding invoke.simps uptime_value [OF assms] ..
  from assms(1) have "0 \<le> clock w - CreationTime (Spec c)" by simp
  then show "sint (word_of_int ((clock w - CreationTime (Spec c)) div 1000000) :: int64)
        = (clock w - CreationTime (Spec c)) div 1000000"
    using assms(2) by (rule sint_milliseconds)
qed

lemma invoke_uptime_differs:
  assumes "CreationTime (Spec c) \<le> clock wa" and "clock wa + 1000000 \<le> clock wb"
    and "clock wb - CreationTime (Spec c) \<le> maxDuration"
  shows "invoke wa (GetValue_of MetricUptime c stat)
        \<noteq> invoke wb (GetValue_of MetricUptime c stat)"
  using uptime_differs [OF assms, of stat] by simp

text \<open>
  Claim C4, amended. In any two worlds, that is whatever the clock reads and whatever
  order the range over the family table takes, every operation other than \<^verbatim>\<open>GetValue\<close>
  of uptime gives the same result for the same arguments: \<^verbatim>\<open>GetValue\<close> and
  \<^verbatim>\<open>GetLabeledMetric\<close> of the metrics of \<^verbatim>\<open>AllMetrics\<close>, \<^verbatim>\<open>MetricFamilyForName\<close>,
  \<^verbatim>\<open>IsNodeAutoscalingMetric\<close>, which is membership of the name in the autoscaling list,
  and the index into \<^verbatim>\<open>RateMetricsMapping\<close>. \<^verbatim>\<open>GetValue\<close> of uptime is a function of
  the entity and of the clock reading: while the creation time is not in the future and at
  most the largest Duration back, it returns the whole milliseconds between the creation
  time and the clock reading, whatever the sample, and two calls whose clock readings are
  a millisecond or more apart return different values.
\<close>

theorem extraction_deterministic:
  "(possible_world wa \<and> possible_world wb \<and> on_registered_metric op \<and>
      \<not> is_uptime_GetValue op \<longrightarrow> invoke wa op = invoke wb op) \<and>
   invoke w (IsNodeAutoscalingMetric_of name)
     = Autoscaling (name \<in> set (map Name NodeAutoscalingMetrics)) \<and>
   (CreationTime (Spec c) \<le> clock w \<and> clock w - CreationTime (Spec c) \<le> maxDuration \<longrightarrow>
      invoke w (GetValue_of MetricUptime c stat)
        = Value (Some \<lparr>IntValue = word_of_int ((clock w - CreationTime (Spec c)) div 1000000),
                        FloatValue = 0, MetricType = MetricCumulative,
                        mv_ValueType = ValueInt64\<rparr>) \<and>
      sint (word_of_int ((clock w - CreationTime (Spec c)) div 1000000) :: int64)
        = (clock w - CreationTime (Spec c)) div 1000000) \<and>
   (CreationTime (Spec c) \<le> clock wa \<and> clock wa + 1000000 \<le> clock wb \<and>
      clock wb - CreationTime (Spec c) \<le> maxDuration \<longrightarrow>
      invoke wa (GetValue_of MetricUptime c stat)
        \<noteq> invoke wb (GetValue_of MetricUptime c stat))"
proof (intro conjI impI)
  assume "possible_world wa \<and> possible_world wb \<and> on_registered_metric op \<and>
      \<not> is_uptime_GetValue op"
  then show "invoke wa op = invoke wb op"
    by (elim conjE) (rule invoke_same)
next
  show "invoke w (IsNodeAutoscalingMetric_of name)
     = Autoscaling (name \<in> set (map Name NodeAutoscalingMetrics))"
    by (simp only: invoke.simps IsNodeAutoscalingMetric_iff)
next
  assume "CreationTime (Spec c) \<le> clock w \<and> clock w - CreationTime (Spec c) \<le> maxDuration"
  then have created: "CreationTime (Spec c) \<le> clock w"
    and recent: "clock w - CreationTime (Spec c) \<le> maxDuration"
    by simp_all
  from invoke_uptime [OF created recent, of stat]
  show "invoke w (GetValue_of MetricUptime c stat)
        = Value (Some \<lparr>IntValue = word_of_int ((clock w - CreationTime (Spec c)) div 1000000),
                        FloatValue = 0, MetricType = MetricCumulative,
                        mv_ValueType = ValueInt64\<rparr>)"
    and "sint (word_of_int ((clock w - CreationTime (Spec c)) div 1000000) :: int64)
        = (clock w - CreationTime (Spec c)) div 1000000"
    by (rule conjunct1, rule conjunct2)
next
  assume "CreationTime (Spec c) \<le> clock wa \<and> clock wa + 1000000 \<le> clock wb \<and>
      clock wb - CreationTime (Spec c) \<le> maxDuration"
  then show "invoke wa (GetValue_of MetricUptime c stat)
        \<noteq> invoke wb (GetValue_of MetricUptime c stat)"
    by (elim conjE) (rule invoke_uptime_differs)
qed

theorem extraction_deterministic_witness:
  "possible_world example_world \<and> possible_world example_world_later \<and>
   MetricMemoryUsage \<in> set AllMetrics \<and> Name MetricMemoryUsage \<noteq> ''uptime'' \<and>
   invoke example_world (GetValue_of MetricMemoryUsage example_container example_stats)
     = invoke example_world_later
         (GetValue_of MetricMemoryUsage example_container example_stats) \<and>
   MetricDiskIORead \<in> set AllMetrics \<and>
   invoke example_world (GetLabeledMetric_of MetricDiskIORead example_container example_stats)
     = invoke example_world_later
         (GetLabeledMetric_of MetricDiskIORead example_container example_stats) \<and>
   invoke example_world (MetricFamilyForName_of ''memory/usage'')
     = invoke example_world_later (MetricFamilyForName_of ''memory/usage'') \<and>
   invoke example_world (IsNodeAutoscalingMetric_of ''cpu/node_capacity'')
     = invoke example_world_later (IsNodeAutoscalingMetric_of ''cpu/node_capacity'') \<and>
   invoke example_world (RateMetricsMapping_of ''cpu/usage'')
     = invoke example_world_later (RateMetricsMapping_of ''cpu/usage'') \<and>
   CreationTime (Spec example_container) \<le> clock example_world \<and>
   clock example_world + 1000000 \<le> clock example_world_later \<and>
   clock example_world_later - CreationTime (Spec example_container) \<le> maxDuration \<and>
   invoke example_world (GetValue_of MetricUptime example_container example_stats)
     \<noteq> invoke example_world_later
         (GetValue_of MetricUptime example_container example_stats)"
proof -
  have worlds: "possible_world example_world" "possible_world example_world_later"
    unfolding possible_world_def range_order_def dom_MetricFamilies
    by (auto simp add: example_world_def example_world_later_def family_consts)
  have usage: "MetricMemoryUsage \<in> set AllMetrics" "Name MetricMemoryUsage \<noteq> ''uptime''"
    by (simp_all add: AllMetrics_def StandardMetrics_def MetricMemoryUsage_def)
  have disk: "MetricDiskIORead \<in> set AllMetrics"
    by (simp add: AllMetrics_def LabeledMetrics_def)
  have times: "CreationTime (Spec example_container) \<le> clock example_world"
    "clock example_world + 1000000 \<le> clock example_world_later"
    "clock example_world_later - CreationTime (Spec example_container) \<le> maxDuration"
    by (simp_all add: example_world_def example_world_later_def example_container_def
        example_spec_def maxDuration_def)
  note inst = extraction_deterministic [where wa = example_world
      and wb = example_world_later and c = example_container and stat = example_stats]
  show ?thesis
    using worlds usage disk times
      inst [where op = "GetValue_of MetricMemoryUsage example_container example_stats"]
      inst [where op = "GetLabeledMetric_of MetricDiskIORead example_container example_stats"]
      inst [where op = "MetricFamilyForName_of ''memory/usage''"]
      inst [where op = "IsNodeAutoscalingMetric_of ''cpu/node_capacity''"]
      inst [where op = "RateMetricsMapping_of ''cpu/usage''"]
    by simp
qed

end
